theory Spec2Isabelle
  imports Main "HOL-Library.Word"
begin

section \<open>Errors\<close>

text \<open>
  A Go \<^verbatim>\<open>error\<close> value is \<open>error option\<close>, with \<open>None\<close> for \<^verbatim>\<open>nil\<close>.
  \<open>StatusError reason message\<close> is an API status error of the remote store
  (\<^verbatim>\<open>apierrors.StatusError\<close>), \<open>ErrorString\<close> any other plain error (a transport
  failure, the result of \<^verbatim>\<open>fmt.Errorf\<close>), \<open>WithMessage\<close> the result of
  \<^verbatim>\<open>errors.Wrap\<close> and \<open>ErrWaitTimeout\<close> the error \<^verbatim>\<open>wait.Poll\<close> returns at its
  deadline.
\<close>

datatype error =
    StatusError string string
  | ErrorString string
  | WithMessage error string
  | ErrWaitTimeout

definition StatusReasonNotFound :: string where
  "StatusReasonNotFound = ''NotFound''"

definition StatusReasonUnknown :: string where
  "StatusReasonUnknown = ''''"

text \<open>
  \<^verbatim>\<open>apierrors.IsNotFound(err)\<close> compares the reason of an API status error with
  \<^verbatim>\<open>NotFound\<close>; \<^verbatim>\<open>nil\<close> and every error that is not an API status error have the
  reason \<^verbatim>\<open>Unknown\<close>.
\<close>

fun ReasonForError :: "error option \<Rightarrow> string" where
  "ReasonForError (Some (StatusError reason message)) = reason"
| "ReasonForError _ = StatusReasonUnknown"

definition IsNotFound :: "error option \<Rightarrow> bool" where
  "IsNotFound err = (ReasonForError err = StatusReasonNotFound)"

text \<open>\<^verbatim>\<open>errors.Wrap(err, message)\<close> is \<^verbatim>\<open>nil\<close> when \<^verbatim>\<open>err\<close> is \<^verbatim>\<open>nil\<close>.\<close>

fun Wrap :: "error option \<Rightarrow> string \<Rightarrow> error option" where
  "Wrap None message = None"
| "Wrap (Some err) message = Some (WithMessage err message)"

section \<open>The remote object store\<close>

text \<open>
  Every typed client of the Go clientsets offers Get, Create, Update, Delete and List on
  one kind of object. The remote store is outside the program, so it is modelled as an
  arbitrary deterministic responder: a \<open>server\<close> answers a call as a function of the
  calls made so far. The state threaded through the program is that history, a list of
  calls in the order they were issued; a call returns the server's answer and appends
  itself to the history. The pair \<^verbatim>\<open>(obj, err)\<close> a Go client returns is \<open>error + 'o\<close>.
  Cluster-scoped clients take the empty namespace.
\<close>

record deleteOptions =
  PropagationPolicy :: "string option"
  OrphanDependents :: "bool option"

record listOptions =
  LabelSelector :: string

datatype 'o call =
    GetCall string string
  | CreateCall string 'o
  | UpdateCall string 'o
  | DeleteCall string string "deleteOptions option"
  | ListCall string listOptions

record 'o server =
  getResp :: "'o call list \<Rightarrow> string \<Rightarrow> string \<Rightarrow> error + 'o"
  createResp :: "'o call list \<Rightarrow> string \<Rightarrow> 'o \<Rightarrow> error + 'o"
  updateResp :: "'o call list \<Rightarrow> string \<Rightarrow> 'o \<Rightarrow> error + 'o"
  deleteResp :: "'o call list \<Rightarrow> string \<Rightarrow> string \<Rightarrow> deleteOptions option \<Rightarrow> error option"
  listResp :: "'o call list \<Rightarrow> string \<Rightarrow> listOptions \<Rightarrow> error + 'o list"

definition clientGet ::
  "'o server \<Rightarrow> string \<Rightarrow> string \<Rightarrow> 'o call list \<Rightarrow> (error + 'o) \<times> 'o call list" where
  "clientGet srv ns name h = (getResp srv h ns name, h @ [GetCall ns name])"

definition clientCreate ::
  "'o server \<Rightarrow> string \<Rightarrow> 'o \<Rightarrow> 'o call list \<Rightarrow> (error + 'o) \<times> 'o call list" where
  "clientCreate srv ns obj h = (createResp srv h ns obj, h @ [CreateCall ns obj])"

definition clientUpdate ::
  "'o server \<Rightarrow> string \<Rightarrow> 'o \<Rightarrow> 'o call list \<Rightarrow> (error + 'o) \<times> 'o call list" where
  "clientUpdate srv ns obj h = (updateResp srv h ns obj, h @ [UpdateCall ns obj])"

definition clientDelete ::
  "'o server \<Rightarrow> string \<Rightarrow> string \<Rightarrow> deleteOptions option \<Rightarrow> 'o call list
     \<Rightarrow> error option \<times> 'o call list" where
  "clientDelete srv ns name opts h = (deleteResp srv h ns name opts, h @ [DeleteCall ns name opts])"

definition clientList ::
  "'o server \<Rightarrow> string \<Rightarrow> listOptions \<Rightarrow> 'o call list \<Rightarrow> (error + 'o list) \<times> 'o call list" where
  "clientList srv ns opts h = (listResp srv h ns opts, h @ [ListCall ns opts])"

definition errOf :: "error + 'o \<Rightarrow> error option" where
  "errOf r = (case r of Inl err \<Rightarrow> Some err | Inr obj \<Rightarrow> None)"

section \<open>Objects\<close>

text \<open>
  Every Go object type embeds \<^verbatim>\<open>metav1.ObjectMeta\<close>; the kinds whose fields the client
  reads or writes extend it, and the other kinds are any extension of \<open>objectMeta\<close>.
  The integer fields keep their Go widths (\<^verbatim>\<open>int64\<close> generations, \<^verbatim>\<open>int32\<close> replica
  counts) and are compared as signed numbers.
\<close>

record objectMeta =
  Name :: string
  Namespace :: string
  ResourceVersion :: string
  Generation :: "64 word"

definition GetName :: "'a objectMeta_scheme \<Rightarrow> string" where
  "GetName obj = Name obj"

definition GetNamespace :: "'a objectMeta_scheme \<Rightarrow> string" where
  "GetNamespace obj = Namespace obj"

definition NamespaceNone :: string where
  "NamespaceNone = ''''"

record serviceSpec =
  Type :: string
  ClusterIP :: string

record service = objectMeta +
  Spec :: serviceSpec

definition ServiceTypeClusterIP :: string where
  "ServiceTypeClusterIP = ''ClusterIP''"

record deploymentStatus =
  ObservedGeneration :: "64 word"
  Replicas :: "32 word"
  UpdatedReplicas :: "32 word"
  UnavailableReplicas :: "32 word"

record deployment = objectMeta +
  Status :: deploymentStatus

record daemonSetStatus =
  ObservedGeneration :: "64 word"
  DesiredNumberScheduled :: "32 word"
  UpdatedNumberScheduled :: "32 word"
  NumberUnavailable :: "32 word"

record daemonSet = objectMeta +
  Status :: daemonSetStatus

record routeIngressCondition =
  Type :: string
  Status :: string

record routeIngress =
  Conditions :: "routeIngressCondition list"

record routeStatus =
  Ingress :: "routeIngress list"

record routeSpec =
  Host :: string

record route = objectMeta +
  Spec :: routeSpec
  Status :: routeStatus

record customResourceDefinitionCondition =
  Type :: string
  Status :: string
  Reason :: string

record customResourceDefinitionStatus =
  Conditions :: "customResourceDefinitionCondition list"

record customResourceDefinition = objectMeta +
  Status :: customResourceDefinitionStatus

definition Established :: string where
  "Established = ''Established''"

definition NamesAccepted :: string where
  "NamesAccepted = ''NamesAccepted''"

definition ConditionTrue :: string where
  "ConditionTrue = ''True''"

definition ConditionFalse :: string where
  "ConditionFalse = ''False''"

definition DeletePropagationForeground :: string where
  "DeletePropagationForeground = ''Foreground''"

section \<open>The deadline poller\<close>

text \<open>
  \<^verbatim>\<open>wait.Poll(interval, timeout, condition)\<close> of the Kubernetes library evaluates the
  condition once per elapsed interval until the condition returns true, returns an error,
  or the timeout is reached; it returns \<^verbatim>\<open>nil\<close>, that error, or \<^verbatim>\<open>ErrWaitTimeout\<close>.
  Time is not part of the model: the poll is a loop over \<open>ticks interval timeout\<close>
  evaluations, the number of intervals that fit into the timeout (at least one, the
  condition is always invoked once). In the library the exact number of evaluations
  depends on how long the condition takes and on which of the ticker and the timer
  fires first at the deadline; \<open>ticks\<close> is the count for a condition that takes no
  time. Durations are nanoseconds, as \<^verbatim>\<open>time.Duration\<close>. A condition reads and
  extends the state \<open>'w\<close> (a call history, and for the route poll the captured host
  variable as well).
\<close>

type_synonym duration = int

definition Second :: duration where
  "Second = 1000000000"

definition Minute :: duration where
  "Minute = 60 * Second"

definition deploymentCreateTimeout :: duration where
  "deploymentCreateTimeout = 5 * Minute"

type_synonym 'w ConditionFunc = "'w \<Rightarrow> (bool \<times> error option) \<times> 'w"

fun WaitFor :: "nat \<Rightarrow> 'w ConditionFunc \<Rightarrow> 'w \<Rightarrow> error option \<times> 'w" where
  "WaitFor 0 fn w = (Some ErrWaitTimeout, w)"
| "WaitFor (Suc n) fn w =
     (case fn w of
        ((ok, err), w') \<Rightarrow>
          if err \<noteq> None then (err, w')
          else if ok then (None, w')
          else WaitFor n fn w')"

definition ticks :: "duration \<Rightarrow> duration \<Rightarrow> nat" where
  "ticks interval timeout = max 1 (nat (timeout div interval))"

definition Poll :: "duration \<Rightarrow> duration \<Rightarrow> 'w ConditionFunc \<Rightarrow> 'w \<Rightarrow> error option \<times> 'w" where
  "Poll interval timeout condition w = WaitFor (ticks interval timeout) condition w"

section \<open>Reconciling\<close>

text \<open>
  Each function takes the typed client it obtains from the \<^verbatim>\<open>Client\<close> struct as its
  first argument, the desired object, and the history; it returns the Go error and the
  extended history. The branches are those of the source: \<^verbatim>\<open>IsNotFound(err)\<close> first,
  then \<^verbatim>\<open>err != nil\<close>, then the update.
\<close>

type_synonym 'o reconcile = "'o server \<Rightarrow> 'o \<Rightarrow> 'o call list \<Rightarrow> error option \<times> 'o call list"

definition CreateOrUpdateSecurityContextConstraints :: "'a objectMeta_scheme reconcile" where
  "CreateOrUpdateSecurityContextConstraints sccclient s h =
     (case clientGet sccclient NamespaceNone (GetName s) h of
        (Inl err, h1) \<Rightarrow>
          if IsNotFound (Some err) then
            (case clientCreate sccclient NamespaceNone s h1 of
               (created, h2) \<Rightarrow> (Wrap (errOf created) ''creating SecurityContextConstraints object failed'', h2))
          else (Wrap (Some err) ''retrieving SecurityContextConstraints object failed'', h1)
      | (Inr observed, h1) \<Rightarrow>
          (case clientUpdate sccclient NamespaceNone s h1 of
             (updated, h2) \<Rightarrow> (Wrap (errOf updated) ''updating SecurityContextConstraints object failed'', h2)))"

definition CreateOrUpdatePrometheus :: "'a objectMeta_scheme reconcile" where
  "CreateOrUpdatePrometheus pclient p h =
     (case clientGet pclient (GetNamespace p) (GetName p) h of
        (Inl err, h1) \<Rightarrow>
          if IsNotFound (Some err) then
            (case clientCreate pclient (GetNamespace p) p h1 of
               (created, h2) \<Rightarrow> (Wrap (errOf created) ''creating Prometheus object failed'', h2))
          else (Wrap (Some err) ''retrieving Prometheus object failed'', h1)
      | (Inr observed, h1) \<Rightarrow>
          (case clientUpdate pclient (GetNamespace p) p h1 of
             (updated, h2) \<Rightarrow> (Wrap (errOf updated) ''updating Prometheus object failed'', h2)))"

definition CreateOrUpdatePrometheusRule :: "'a objectMeta_scheme reconcile" where
  "CreateOrUpdatePrometheusRule pclient p h =
     (case clientGet pclient (GetNamespace p) (GetName p) h of
        (Inl err, h1) \<Rightarrow>
          if IsNotFound (Some err) then
            (case clientCreate pclient (GetNamespace p) p h1 of
               (created, h2) \<Rightarrow> (Wrap (errOf created) ''creating PrometheusRule object failed'', h2))
          else (Wrap (Some err) ''retrieving PrometheusRule object failed'', h1)
      | (Inr observed, h1) \<Rightarrow>
          (case clientUpdate pclient (GetNamespace p) p h1 of
             (updated, h2) \<Rightarrow> (Wrap (errOf updated) ''updating PrometheusRule object failed'', h2)))"

definition CreateOrUpdateAlertmanager :: "'a objectMeta_scheme reconcile" where
  "CreateOrUpdateAlertmanager aclient a h =
     (case clientGet aclient (GetNamespace a) (GetName a) h of
        (Inl err, h1) \<Rightarrow>
          if IsNotFound (Some err) then
            (case clientCreate aclient (GetNamespace a) a h1 of
               (created, h2) \<Rightarrow> (Wrap (errOf created) ''creating Alertmanager object failed'', h2))
          else (Wrap (Some err) ''retrieving Alertmanager object failed'', h1)
      | (Inr observed, h1) \<Rightarrow>
          (case clientUpdate aclient (GetNamespace a) a h1 of
             (updated, h2) \<Rightarrow> (Wrap (errOf updated) ''updating Alertmanager object failed'', h2)))"

definition CreateOrUpdateSecret :: "'a objectMeta_scheme reconcile" where
  "CreateOrUpdateSecret sClient s h =
     (case clientGet sClient (GetNamespace s) (GetName s) h of
        (Inl err, h1) \<Rightarrow>
          if IsNotFound (Some err) then
            (case clientCreate sClient (GetNamespace s) s h1 of
               (created, h2) \<Rightarrow> (Wrap (errOf created) ''creating Secret object failed'', h2))
          else (Wrap (Some err) ''retrieving Secret object failed'', h1)
      | (Inr observed, h1) \<Rightarrow>
          (case clientUpdate sClient (GetNamespace s) s h1 of
             (updated, h2) \<Rightarrow> (Wrap (errOf updated) ''updating Secret object failed'', h2)))"

definition CreateOrUpdateConfigMap :: "'a objectMeta_scheme reconcile" where
  "CreateOrUpdateConfigMap cmClient cm h =
     (case clientGet cmClient (GetNamespace cm) (GetName cm) h of
        (Inl err, h1) \<Rightarrow>
          if IsNotFound (Some err) then
            (case clientCreate cmClient (GetNamespace cm) cm h1 of
               (created, h2) \<Rightarrow> (Wrap (errOf created) ''creating ConfigMap object failed'', h2))
          else (Wrap (Some err) ''retrieving ConfigMap object failed'', h1)
      | (Inr observed, h1) \<Rightarrow>
          (case clientUpdate cmClient (GetNamespace cm) cm h1 of
             (updated, h2) \<Rightarrow> (Wrap (errOf updated) ''updating ConfigMap object failed'', h2)))"

definition CreateOrUpdateRoleBinding :: "'a objectMeta_scheme reconcile" where
  "CreateOrUpdateRoleBinding rbClient rb h =
     (case clientGet rbClient (GetNamespace rb) (GetName rb) h of
        (Inl err, h1) \<Rightarrow>
          if IsNotFound (Some err) then
            (case clientCreate rbClient (GetNamespace rb) rb h1 of
               (created, h2) \<Rightarrow> (Wrap (errOf created) ''creating RoleBinding object failed'', h2))
          else (Wrap (Some err) ''retrieving RoleBinding object failed'', h1)
      | (Inr observed, h1) \<Rightarrow>
          (case clientUpdate rbClient (GetNamespace rb) rb h1 of
             (updated, h2) \<Rightarrow> (Wrap (errOf updated) ''updating RoleBinding object failed'', h2)))"

definition CreateOrUpdateRole :: "'a objectMeta_scheme reconcile" where
  "CreateOrUpdateRole rClient r h =
     (case clientGet rClient (GetNamespace r) (GetName r) h of
        (Inl err, h1) \<Rightarrow>
          if IsNotFound (Some err) then
            (case clientCreate rClient (GetNamespace r) r h1 of
               (created, h2) \<Rightarrow> (Wrap (errOf created) ''creating Role object failed'', h2))
          else (Wrap (Some err) ''retrieving Role object failed'', h1)
      | (Inr observed, h1) \<Rightarrow>
          (case clientUpdate rClient (GetNamespace r) r h1 of
             (updated, h2) \<Rightarrow> (Wrap (errOf updated) ''updating Role object failed'', h2)))"

definition CreateOrUpdateClusterRole :: "'a objectMeta_scheme reconcile" where
  "CreateOrUpdateClusterRole crClient cr h =
     (case clientGet crClient NamespaceNone (GetName cr) h of
        (Inl err, h1) \<Rightarrow>
          if IsNotFound (Some err) then
            (case clientCreate crClient NamespaceNone cr h1 of
               (created, h2) \<Rightarrow> (Wrap (errOf created) ''creating ClusterRole object failed'', h2))
          else (Wrap (Some err) ''retrieving ClusterRole object failed'', h1)
      | (Inr observed, h1) \<Rightarrow>
          (case clientUpdate crClient NamespaceNone cr h1 of
             (updated, h2) \<Rightarrow> (Wrap (errOf updated) ''updating ClusterRole object failed'', h2)))"

definition CreateOrUpdateClusterRoleBinding :: "'a objectMeta_scheme reconcile" where
  "CreateOrUpdateClusterRoleBinding crbClient crb h =
     (case clientGet crbClient NamespaceNone (GetName crb) h of
        (Inl err, h1) \<Rightarrow>
          if IsNotFound (Some err) then
            (case clientCreate crbClient NamespaceNone crb h1 of
               (created, h2) \<Rightarrow> (Wrap (errOf created) ''creating ClusterRoleBinding object failed'', h2))
          else (Wrap (Some err) ''retrieving ClusterRoleBinding object failed'', h1)
      | (Inr observed, h1) \<Rightarrow>
          (case clientUpdate crbClient NamespaceNone crb h1 of
             (updated, h2) \<Rightarrow> (Wrap (errOf updated) ''updating ClusterRoleBinding object failed'', h2)))"

definition CreateOrUpdateServiceMonitor :: "'a objectMeta_scheme reconcile" where
  "CreateOrUpdateServiceMonitor smClient sm h =
     (case clientGet smClient (GetNamespace sm) (GetName sm) h of
        (Inl err, h1) \<Rightarrow>
          if IsNotFound (Some err) then
            (case clientCreate smClient (GetNamespace sm) sm h1 of
               (created, h2) \<Rightarrow> (Wrap (errOf created) ''creating ServiceMonitor object failed'', h2))
          else (Wrap (Some err) ''retrieving ServiceMonitor object failed'', h1)
      | (Inr observed, h1) \<Rightarrow>
          (case clientUpdate smClient (GetNamespace sm) sm h1 of
             (updated, h2) \<Rightarrow> (Wrap (errOf updated) ''updating ServiceMonitor object failed'', h2)))"

definition CreateOrUpdateIngress :: "'a objectMeta_scheme reconcile" where
  "CreateOrUpdateIngress ic ing h =
     (case clientGet ic (GetNamespace ing) (GetName ing) h of
        (Inl err, h1) \<Rightarrow>
          if IsNotFound (Some err) then
            (case clientCreate ic (GetNamespace ing) ing h1 of
               (created, h2) \<Rightarrow> (Wrap (errOf created) ''creating Ingress object failed'', h2))
          else (Wrap (Some err) ''retrieving Ingress object failed'', h1)
      | (Inr observed, h1) \<Rightarrow>
          (case clientUpdate ic (GetNamespace ing) ing h1 of
             (updated, h2) \<Rightarrow> (Wrap (errOf updated) ''creating Ingress object failed'', h2)))"

definition CreateOrUpdateService :: "'a service_scheme reconcile" where
  "CreateOrUpdateService sclient svc h =
     (case clientGet sclient (GetNamespace svc) (GetName svc) h of
        (Inl err, h1) \<Rightarrow>
          if IsNotFound (Some err) then
            (case clientCreate sclient (GetNamespace svc) svc h1 of
               (created, h2) \<Rightarrow> (Wrap (errOf created) ''creating Service object failed'', h2))
          else (Wrap (Some err) ''retrieving Service object failed'', h1)
      | (Inr s, h1) \<Rightarrow>
          (let svc1 = svc\<lparr>ResourceVersion := ResourceVersion s\<rparr>;
               svc2 = (if serviceSpec.Type (service.Spec svc1) = ServiceTypeClusterIP
                       then svc1\<lparr>service.Spec :=
                              (service.Spec svc1)\<lparr>ClusterIP := ClusterIP (service.Spec s)\<rparr>\<rparr>
                       else svc1)
           in case clientUpdate sclient (GetNamespace svc) svc2 h1 of
                (updated, h2) \<Rightarrow> (Wrap (errOf updated) ''updating Service object failed'', h2)))"

definition CreateOrUpdateEndpoints :: "'a objectMeta_scheme reconcile" where
  "CreateOrUpdateEndpoints eclient endpoints h =
     (case clientGet eclient (GetNamespace endpoints) (GetName endpoints) h of
        (Inl err, h1) \<Rightarrow>
          if IsNotFound (Some err) then
            (case clientCreate eclient (GetNamespace endpoints) endpoints h1 of
               (created, h2) \<Rightarrow> (Wrap (errOf created) ''creating Endpoints object failed'', h2))
          else (Wrap (Some err) ''retrieving Endpoints object failed'', h1)
      | (Inr e, h1) \<Rightarrow>
          (let endpoints1 = endpoints\<lparr>ResourceVersion := ResourceVersion e\<rparr>
           in case clientUpdate eclient (GetNamespace endpoints) endpoints1 h1 of
                (updated, h2) \<Rightarrow> (Wrap (errOf updated) ''updating Endpoints object failed'', h2)))"

text \<open>
  The service account is created when absent and otherwise left alone: after the
  not-found branch the function returns the wrapped error of the Get, which is
  \<^verbatim>\<open>nil\<close> when the account exists. The update is commented out in the source.
\<close>

definition CreateOrUpdateServiceAccount :: "'a objectMeta_scheme reconcile" where
  "CreateOrUpdateServiceAccount sClient sa h =
     (case clientGet sClient (GetNamespace sa) (GetName sa) h of
        (observed, h1) \<Rightarrow>
          if IsNotFound (errOf observed) then
            (case clientCreate sClient (GetNamespace sa) sa h1 of
               (created, h2) \<Rightarrow> (Wrap (errOf created) ''creating ServiceAccount object failed'', h2))
          else (Wrap (errOf observed) ''retrieving ServiceAccount object failed'', h1))"

definition CreateIfNotExistSecret :: "'a objectMeta_scheme reconcile" where
  "CreateIfNotExistSecret sClient s h =
     (case clientGet sClient (GetNamespace s) (GetName s) h of
        (observed, h1) \<Rightarrow>
          if IsNotFound (errOf observed) then
            (case clientCreate sClient (GetNamespace s) s h1 of
               (created, h2) \<Rightarrow> (Wrap (errOf created) ''creating Secret object failed'', h2))
          else (Wrap (errOf observed) ''retrieving Secret object failed'', h1))"

definition CreateIfNotExistConfigMap :: "'a objectMeta_scheme reconcile" where
  "CreateIfNotExistConfigMap cClient cm h =
     (case clientGet cClient (GetNamespace cm) (GetName cm) h of
        (observed, h1) \<Rightarrow>
          if IsNotFound (errOf observed) then
            (case clientCreate cClient (GetNamespace cm) cm h1 of
               (created, h2) \<Rightarrow> (Wrap (errOf created) ''creating ConfigMap object failed'', h2))
          else (Wrap (errOf observed) ''retrieving ConfigMap object failed'', h1))"

text \<open>The route is created when absent; every other outcome of the Get returns \<^verbatim>\<open>nil\<close>.\<close>

definition CreateRouteIfNotExists :: "'a route_scheme reconcile" where
  "CreateRouteIfNotExists rclient r h =
     (case clientGet rclient (GetNamespace r) (GetName r) h of
        (observed, h1) \<Rightarrow>
          if IsNotFound (errOf observed) then
            (case clientCreate rclient (GetNamespace r) r h1 of
               (created, h2) \<Rightarrow> (Wrap (errOf created) ''creating Route object failed'', h2))
          else (None, h1))"

fun CreateOrUpdateConfigMapList ::
  "'a objectMeta_scheme server \<Rightarrow> 'a objectMeta_scheme list \<Rightarrow> 'a objectMeta_scheme call list
     \<Rightarrow> error option \<times> 'a objectMeta_scheme call list" where
  "CreateOrUpdateConfigMapList cmClient [] h = (None, h)"
| "CreateOrUpdateConfigMapList cmClient (cm # items) h =
     (case CreateOrUpdateConfigMap cmClient cm h of
        (Some err, h1) \<Rightarrow> (Some err, h1)
      | (None, h1) \<Rightarrow> CreateOrUpdateConfigMapList cmClient items h1)"

section \<open>Readiness polls\<close>

text \<open>
  Each wait is \<^verbatim>\<open>wait.Poll\<close> on a closure; the closure is the definition whose name
  ends in \<open>_condition\<close>. It re-fetches the object on every tick.
\<close>

definition WaitForDeploymentRollout_condition ::
  "'a deployment_scheme server \<Rightarrow> 'a deployment_scheme
     \<Rightarrow> 'a deployment_scheme call list ConditionFunc" where
  "WaitForDeploymentRollout_condition deployments dep h =
     (case clientGet deployments (GetNamespace dep) (GetName dep) h of
        (Inl err, h1) \<Rightarrow> ((False, Some err), h1)
      | (Inr d, h1) \<Rightarrow>
          if sint (Generation d) \<le> sint (deploymentStatus.ObservedGeneration (deployment.Status d))
             \<and> UpdatedReplicas (deployment.Status d) = Replicas (deployment.Status d)
             \<and> UnavailableReplicas (deployment.Status d) = 0
          then ((True, None), h1)
          else ((False, None), h1))"

definition WaitForDeploymentRollout ::
  "'a deployment_scheme server \<Rightarrow> 'a deployment_scheme \<Rightarrow> 'a deployment_scheme call list
     \<Rightarrow> error option \<times> 'a deployment_scheme call list" where
  "WaitForDeploymentRollout deployments dep h =
     Poll Second deploymentCreateTimeout (WaitForDeploymentRollout_condition deployments dep) h"

definition CreateDeployment :: "'a deployment_scheme reconcile" where
  "CreateDeployment deployments dep h =
     (case clientCreate deployments (GetNamespace dep) dep h of
        (Inl err, h1) \<Rightarrow> (Some err, h1)
      | (Inr d, h1) \<Rightarrow> WaitForDeploymentRollout deployments d h1)"

definition UpdateDeployment :: "'a deployment_scheme reconcile" where
  "UpdateDeployment deployments dep h =
     (case clientUpdate deployments (GetNamespace dep) dep h of
        (Inl err, h1) \<Rightarrow> (Some err, h1)
      | (Inr updated, h1) \<Rightarrow> WaitForDeploymentRollout deployments updated h1)"

definition CreateOrUpdateDeployment :: "'a deployment_scheme reconcile" where
  "CreateOrUpdateDeployment deployments dep h =
     (case clientGet deployments (GetNamespace dep) (GetName dep) h of
        (Inl err, h1) \<Rightarrow>
          if IsNotFound (Some err) then
            (case CreateDeployment deployments dep h1 of
               (err1, h2) \<Rightarrow> (Wrap err1 ''creating deployment object failed'', h2))
          else (Wrap (Some err) ''retrieving deployment object failed'', h1)
      | (Inr observed, h1) \<Rightarrow>
          (case UpdateDeployment deployments dep h1 of
             (err1, h2) \<Rightarrow> (Wrap err1 ''updating deployment object failed'', h2)))"

definition WaitForDaemonSetRollout_condition ::
  "'a daemonSet_scheme server \<Rightarrow> 'a daemonSet_scheme
     \<Rightarrow> 'a daemonSet_scheme call list ConditionFunc" where
  "WaitForDaemonSetRollout_condition daemonSets ds h =
     (case clientGet daemonSets (GetNamespace ds) (GetName ds) h of
        (Inl err, h1) \<Rightarrow> ((False, Some err), h1)
      | (Inr d, h1) \<Rightarrow>
          if sint (Generation d) \<le> sint (daemonSetStatus.ObservedGeneration (daemonSet.Status d))
             \<and> UpdatedNumberScheduled (daemonSet.Status d) = DesiredNumberScheduled (daemonSet.Status d)
             \<and> NumberUnavailable (daemonSet.Status d) = 0
          then ((True, None), h1)
          else ((False, None), h1))"

definition WaitForDaemonSetRollout ::
  "'a daemonSet_scheme server \<Rightarrow> 'a daemonSet_scheme \<Rightarrow> 'a daemonSet_scheme call list
     \<Rightarrow> error option \<times> 'a daemonSet_scheme call list" where
  "WaitForDaemonSetRollout daemonSets ds h =
     Poll Second deploymentCreateTimeout (WaitForDaemonSetRollout_condition daemonSets ds) h"

definition CreateDaemonSet :: "'a daemonSet_scheme reconcile" where
  "CreateDaemonSet daemonSets ds h =
     (case clientCreate daemonSets (GetNamespace ds) ds h of
        (Inl err, h1) \<Rightarrow> (Some err, h1)
      | (Inr d, h1) \<Rightarrow> WaitForDaemonSetRollout daemonSets d h1)"

definition UpdateDaemonSet :: "'a daemonSet_scheme reconcile" where
  "UpdateDaemonSet daemonSets ds h =
     (case clientUpdate daemonSets (GetNamespace ds) ds h of
        (Inl err, h1) \<Rightarrow> (Some err, h1)
      | (Inr updated, h1) \<Rightarrow> WaitForDaemonSetRollout daemonSets updated h1)"

definition CreateOrUpdateDaemonSet :: "'a daemonSet_scheme reconcile" where
  "CreateOrUpdateDaemonSet daemonSets ds h =
     (case clientGet daemonSets (GetNamespace ds) (GetName ds) h of
        (Inl err, h1) \<Rightarrow>
          if IsNotFound (Some err) then
            (case CreateDaemonSet daemonSets ds h1 of
               (err1, h2) \<Rightarrow> (Wrap err1 ''creating DaemonSet object failed'', h2))
          else (Wrap (Some err) ''retrieving DaemonSet object failed'', h1)
      | (Inr observed, h1) \<Rightarrow>
          (case UpdateDaemonSet daemonSets ds h1 of
             (err1, h2) \<Rightarrow> (Wrap err1 ''updating DaemonSet object failed'', h2)))"

text \<open>
  The route poll writes the captured variable \<^verbatim>\<open>host\<close>, so its state is the pair of
  that variable and the history. The loop over the conditions of the first ingress
  entry returns at the first admitted condition.
\<close>

fun WaitForRouteReady_admitted :: "routeIngressCondition list \<Rightarrow> bool" where
  "WaitForRouteReady_admitted [] = False"
| "WaitForRouteReady_admitted (c # cs) =
     (if routeIngressCondition.Type c = ''Admitted'' \<and> routeIngressCondition.Status c = ''True''
      then True else WaitForRouteReady_admitted cs)"

definition WaitForRouteReady_condition ::
  "'a route_scheme server \<Rightarrow> 'a route_scheme
     \<Rightarrow> (string \<times> 'a route_scheme call list) ConditionFunc" where
  "WaitForRouteReady_condition routes r w =
     (case w of (host, h) \<Rightarrow>
        (case clientGet routes (GetNamespace r) (GetName r) h of
           (Inl err, h1) \<Rightarrow> ((False, Some err), (host, h1))
         | (Inr newRoute, h1) \<Rightarrow>
             (case Ingress (route.Status newRoute) of
                [] \<Rightarrow> ((False, None), (host, h1))
              | ingress0 # rest \<Rightarrow>
                  if WaitForRouteReady_admitted (routeIngress.Conditions ingress0)
                  then ((True, None), (Host (route.Spec newRoute), h1))
                  else ((False, None), (host, h1)))))"

definition WaitForRouteReady ::
  "'a route_scheme server \<Rightarrow> 'a route_scheme \<Rightarrow> 'a route_scheme call list
     \<Rightarrow> (string \<times> error option) \<times> 'a route_scheme call list" where
  "WaitForRouteReady routes r h =
     (case Poll Second deploymentCreateTimeout (WaitForRouteReady_condition routes r) ('''', h) of
        (err, (host, h1)) \<Rightarrow> ((host, err), h1))"

text \<open>
  The loop of \<^verbatim>\<open>CRDReady\<close> over the conditions returns at the first condition that is
  Established with status True or NamesAccepted with status False; when there is none,
  the function returns \<^verbatim>\<open>(false, nil)\<close>.
\<close>

fun CRDReady_conditions ::
  "string \<Rightarrow> customResourceDefinitionCondition list \<Rightarrow> bool \<times> error option" where
  "CRDReady_conditions name [] = (False, None)"
| "CRDReady_conditions name (cond # conds) =
     (if customResourceDefinitionCondition.Type cond = Established then
        (if customResourceDefinitionCondition.Status cond = ConditionTrue then (True, None)
         else CRDReady_conditions name conds)
      else if customResourceDefinitionCondition.Type cond = NamesAccepted then
        (if customResourceDefinitionCondition.Status cond = ConditionFalse
         then (False, Some (ErrorString (''CRD naming conflict ('' @ name @ ''): '' @ Reason cond)))
         else CRDReady_conditions name conds)
      else CRDReady_conditions name conds)"

definition CRDReady ::
  "'a customResourceDefinition_scheme server \<Rightarrow> 'a customResourceDefinition_scheme
     \<Rightarrow> 'a customResourceDefinition_scheme call list ConditionFunc" where
  "CRDReady crdClient crd h =
     (case clientGet crdClient NamespaceNone (Name crd) h of
        (Inl err, h1) \<Rightarrow> ((False, Some err), h1)
      | (Inr crdEst, h1) \<Rightarrow>
          (CRDReady_conditions (Name crd)
             (customResourceDefinitionStatus.Conditions (customResourceDefinition.Status crdEst)), h1))"

definition WaitForCRDReady ::
  "'a customResourceDefinition_scheme server \<Rightarrow> 'a customResourceDefinition_scheme
     \<Rightarrow> 'a customResourceDefinition_scheme call list
     \<Rightarrow> error option \<times> 'a customResourceDefinition_scheme call list" where
  "WaitForCRDReady crdClient crd h = Poll (5 * Second) (5 * Minute) (CRDReady crdClient crd) h"

text \<open>
  \<^verbatim>\<open>WaitForPrometheusOperatorCRDsReady\<close> polls a closure that waits for the three
  definitions of the Prometheus operator and then lists the objects of the three kinds
  in the client's namespace. It uses four clients, so its state is the tuple of their
  histories. The three definitions come from \<^verbatim>\<open>k8sutil.NewCustomResourceDefinition\<close>
  of the operator's library and are parameters here. The function discards the result
  of the poll and returns \<^verbatim>\<open>nil\<close>.
\<close>

definition WaitForPrometheusOperatorCRDsReady_condition ::
  "'a customResourceDefinition_scheme server \<Rightarrow> 'p server \<Rightarrow> 'q server \<Rightarrow> 'r server
     \<Rightarrow> string \<Rightarrow> 'a customResourceDefinition_scheme \<Rightarrow> 'a customResourceDefinition_scheme
     \<Rightarrow> 'a customResourceDefinition_scheme
     \<Rightarrow> ('a customResourceDefinition_scheme call list \<times> 'p call list \<times> 'q call list
           \<times> 'r call list) ConditionFunc" where
  "WaitForPrometheusOperatorCRDsReady_condition crdClient prometheuses alertmanagers
       serviceMonitors namespace prometheusCRD alertmanagerCRD serviceMonitorCRD w =
     (case w of (hc, hp, ha, hs) \<Rightarrow>
        (case WaitForCRDReady crdClient prometheusCRD hc of
           (Some err, hc1) \<Rightarrow> ((False, Some err), (hc1, hp, ha, hs))
         | (None, hc1) \<Rightarrow>
        (case WaitForCRDReady crdClient alertmanagerCRD hc1 of
           (Some err, hc2) \<Rightarrow> ((False, Some err), (hc2, hp, ha, hs))
         | (None, hc2) \<Rightarrow>
        (case WaitForCRDReady crdClient serviceMonitorCRD hc2 of
           (Some err, hc3) \<Rightarrow> ((False, Some err), (hc3, hp, ha, hs))
         | (None, hc3) \<Rightarrow>
        (case clientList prometheuses namespace \<lparr>LabelSelector = ''''\<rparr> hp of
           (Inl err, hp1) \<Rightarrow> ((False, Some err), (hc3, hp1, ha, hs))
         | (Inr ps, hp1) \<Rightarrow>
        (case clientList alertmanagers namespace \<lparr>LabelSelector = ''''\<rparr> ha of
           (Inl err, ha1) \<Rightarrow> ((False, Some err), (hc3, hp1, ha1, hs))
         | (Inr as, ha1) \<Rightarrow>
        (case clientList serviceMonitors namespace \<lparr>LabelSelector = ''''\<rparr> hs of
           (Inl err, hs1) \<Rightarrow> ((False, Some err), (hc3, hp1, ha1, hs1))
         | (Inr sms, hs1) \<Rightarrow> ((True, None), (hc3, hp1, ha1, hs1)))))))))"

definition WaitForPrometheusOperatorCRDsReady ::
  "'a customResourceDefinition_scheme server \<Rightarrow> 'p server \<Rightarrow> 'q server \<Rightarrow> 'r server
     \<Rightarrow> string \<Rightarrow> 'a customResourceDefinition_scheme \<Rightarrow> 'a customResourceDefinition_scheme
     \<Rightarrow> 'a customResourceDefinition_scheme
     \<Rightarrow> 'a customResourceDefinition_scheme call list \<times> 'p call list \<times> 'q call list
           \<times> 'r call list
     \<Rightarrow> error option \<times> ('a customResourceDefinition_scheme call list \<times> 'p call list
           \<times> 'q call list \<times> 'r call list)" where
  "WaitForPrometheusOperatorCRDsReady crdClient prometheuses alertmanagers serviceMonitors
       namespace prometheusCRD alertmanagerCRD serviceMonitorCRD w =
     (case Poll Second (Minute * 5)
             (WaitForPrometheusOperatorCRDsReady_condition crdClient prometheuses alertmanagers
                serviceMonitors namespace prometheusCRD alertmanagerCRD serviceMonitorCRD) w of
        (err, w1) \<Rightarrow> (None, w1))"

section \<open>Deleting\<close>

definition DeleteDeployment ::
  "'a objectMeta_scheme server \<Rightarrow> 'b objectMeta_scheme \<Rightarrow> 'a objectMeta_scheme call list
     \<Rightarrow> error option \<times> 'a objectMeta_scheme call list" where
  "DeleteDeployment deployments d h =
     (let p = DeletePropagationForeground
      in case clientDelete deployments (GetNamespace d) (GetName d)
                (Some \<lparr>PropagationPolicy = Some p, OrphanDependents = None\<rparr>) h of
           (err, h1) \<Rightarrow> if IsNotFound err then (None, h1) else (err, h1))"

definition DeleteDaemonSet ::
  "'a objectMeta_scheme server \<Rightarrow> 'b objectMeta_scheme \<Rightarrow> 'a objectMeta_scheme call list
     \<Rightarrow> error option \<times> 'a objectMeta_scheme call list" where
  "DeleteDaemonSet daemonSets d h =
     (let orphanDependents = False
      in case clientDelete daemonSets (GetNamespace d) (GetName d)
                (Some \<lparr>PropagationPolicy = None, OrphanDependents = Some orphanDependents\<rparr>) h of
           (err, h1) \<Rightarrow> if IsNotFound err then (None, h1) else (err, h1))"

definition DeleteServiceMonitor ::
  "'o server \<Rightarrow> string \<Rightarrow> string \<Rightarrow> 'o call list \<Rightarrow> error option \<times> 'o call list" where
  "DeleteServiceMonitor sclient namespace name h =
     (case clientDelete sclient namespace name None h of
        (err, h1) \<Rightarrow>
          if err \<noteq> None \<and> \<not> IsNotFound err
          then (Wrap err ''deleting ServiceMonitor object failed'', h1)
          else (None, h1))"

text \<open>
  \<^verbatim>\<open>DeletePrometheus\<close> uses two clients, the one of the Prometheus objects and the one
  of the pods, so its state is the pair of their histories. The list options of the pod
  listing come from \<^verbatim>\<open>prometheusoperator.ListOptions\<close>, a function of the Prometheus
  operator's library, taken as the parameter \<open>ListOptions\<close>.
\<close>

definition DeletePrometheus_condition ::
  "'p server \<Rightarrow> (string \<Rightarrow> listOptions) \<Rightarrow> 'a objectMeta_scheme \<Rightarrow> 'p call list ConditionFunc" where
  "DeletePrometheus_condition pods ListOptions p h =
     (case clientList pods (GetNamespace p) (ListOptions (GetName p)) h of
        (Inl err, h1) \<Rightarrow> ((False, Wrap (Some err) ''retrieving pods during polling failed''), h1)
      | (Inr items, h1) \<Rightarrow> ((length items = 0, None), h1))"

definition DeletePrometheus ::
  "'a objectMeta_scheme server \<Rightarrow> 'p server \<Rightarrow> (string \<Rightarrow> listOptions) \<Rightarrow> 'a objectMeta_scheme
     \<Rightarrow> 'a objectMeta_scheme call list \<times> 'p call list
     \<Rightarrow> error option \<times> ('a objectMeta_scheme call list \<times> 'p call list)" where
  "DeletePrometheus pclient pods ListOptions p w =
     (case w of (h, hpods) \<Rightarrow>
        (case clientDelete pclient (GetNamespace p) (GetName p) None h of
           (err, h1) \<Rightarrow>
             if err \<noteq> None \<and> \<not> IsNotFound err
             then (Wrap err ''deleting Prometheus object failed'', (h1, hpods))
             else (case Poll (Second * 10) (Minute * 10)
                          (DeletePrometheus_condition pods ListOptions p) hpods of
                     (err1, hpods1) \<Rightarrow>
                       (Wrap err1 ''waiting for Prometheus Pods to be gone failed'', (h1, hpods1)))))"

section \<open>Example stores\<close>

text \<open>
  Concrete servers for the worked examples. \<open>scriptServer g\<close> answers every Get with
  \<open>g\<close> of the history, accepts every Create and Update by returning the object sent,
  deletes without error and lists nothing. \<open>replay\<close> reads a script of answers by the
  number of calls made so far and repeats a default answer after its end.
\<close>

definition replay :: "'r \<Rightarrow> 'r list \<Rightarrow> 'o call list \<Rightarrow> 'r" where
  "replay dflt script h = (if length h < length script then script ! length h else dflt)"

definition scriptServer :: "('o call list \<Rightarrow> error + 'o) \<Rightarrow> 'o server" where
  "scriptServer g =
     \<lparr>getResp = (\<lambda>h ns name. g h),
      createResp = (\<lambda>h ns obj. Inr obj),
      updateResp = (\<lambda>h ns obj. Inr obj),
      deleteResp = (\<lambda>h ns name opts. None),
      listResp = (\<lambda>h ns opts. Inr [])\<rparr>"

definition exampleDeployment :: "64 word \<Rightarrow> 32 word \<Rightarrow> 32 word \<Rightarrow> deployment" where
  "exampleDeployment observedGeneration updatedReplicas unavailableReplicas =
     \<lparr>Name = ''web'', Namespace = ''monitoring'', ResourceVersion = ''7'', Generation = 2,
      deployment.Status =
        \<lparr>deploymentStatus.ObservedGeneration = observedGeneration, Replicas = 3,
         UpdatedReplicas = updatedReplicas, UnavailableReplicas = unavailableReplicas\<rparr>\<rparr>"

definition rolloutServer :: "deployment server" where
  "rolloutServer =
     scriptServer (replay (Inr (exampleDeployment 2 3 0)) [Inr (exampleDeployment 1 2 1)])"

definition exampleAccount :: "string \<Rightarrow> objectMeta" where
  "exampleAccount version =
     \<lparr>Name = ''prometheus-k8s'', Namespace = ''monitoring'', ResourceVersion = version,
      Generation = 0\<rparr>"

definition presentServer :: "objectMeta server" where
  "presentServer = scriptServer (\<lambda>h. Inr (exampleAccount ''42''))"

definition exampleRoute :: "routeIngress list \<Rightarrow> route" where
  "exampleRoute ingress =
     \<lparr>Name = ''grafana'', Namespace = ''monitoring'', ResourceVersion = ''3'', Generation = 1,
      route.Spec = \<lparr>Host = ''example.test''\<rparr>,
      route.Status = \<lparr>Ingress = ingress\<rparr>\<rparr>"

definition admittedIngress :: routeIngress where
  "admittedIngress =
     \<lparr>routeIngress.Conditions =
        [\<lparr>routeIngressCondition.Type = ''Admitted'', routeIngressCondition.Status = ''True''\<rparr>]\<rparr>"

definition routeServer :: "route server" where
  "routeServer =
     scriptServer (replay (Inr (exampleRoute [admittedIngress])) [Inr (exampleRoute [])])"

definition crdCondition :: "string \<Rightarrow> string \<Rightarrow> string \<Rightarrow> customResourceDefinitionCondition" where
  "crdCondition type status reason =
     \<lparr>customResourceDefinitionCondition.Type = type,
      customResourceDefinitionCondition.Status = status, Reason = reason\<rparr>"

definition exampleCRD :: "customResourceDefinitionCondition list \<Rightarrow> customResourceDefinition" where
  "exampleCRD conds =
     \<lparr>Name = ''prometheuses.monitoring.coreos.com'', Namespace = '''', ResourceVersion = ''1'',
      Generation = 1,
      customResourceDefinition.Status = \<lparr>customResourceDefinitionStatus.Conditions = conds\<rparr>\<rparr>"

definition crdServer :: "customResourceDefinitionCondition list \<Rightarrow> customResourceDefinition server" where
  "crdServer conds = scriptServer (\<lambda>h. Inr (exampleCRD conds))"

definition flakyServer :: "deployment server" where
  "flakyServer =
     scriptServer (replay (Inr (exampleDeployment 2 3 0)) [Inl (ErrorString ''connection refused'')])"

definition listServer :: "('o call list \<Rightarrow> error + 'o list) \<Rightarrow> 'o server" where
  "listServer l =
     \<lparr>getResp = (\<lambda>h ns name. Inl (StatusError StatusReasonNotFound ''not found'')),
      createResp = (\<lambda>h ns obj. Inr obj),
      updateResp = (\<lambda>h ns obj. Inr obj),
      deleteResp = (\<lambda>h ns name opts. None),
      listResp = (\<lambda>h ns opts. l h)\<rparr>"

definition exampleListOptions :: "string \<Rightarrow> listOptions" where
  "exampleListOptions name = \<lparr>LabelSelector = ''app=prometheus,prometheus='' @ name\<rparr>"

definition examplePrometheus :: "string \<Rightarrow> objectMeta" where
  "examplePrometheus version =
     \<lparr>Name = ''k8s'', Namespace = ''monitoring'', ResourceVersion = version, Generation = 1\<rparr>"

definition examplePod :: "string \<Rightarrow> objectMeta" where
  "examplePod name =
     \<lparr>Name = name, Namespace = ''monitoring'', ResourceVersion = ''1'', Generation = 0\<rparr>"


definition reconcileServer :: "deployment server" where
  "reconcileServer =
     scriptServer (replay (Inr (exampleDeployment 2 3 0))
       [Inr (exampleDeployment 1 2 1), Inr (exampleDeployment 1 2 1), Inr (exampleDeployment 1 2 1)])"

definition notFound :: error where
  "notFound = StatusError StatusReasonNotFound ''not found''"

definition absentServer :: "'o server" where
  "absentServer =
     \<lparr>getResp = (\<lambda>h ns name. Inl notFound),
      createResp = (\<lambda>h ns obj. Inr obj),
      updateResp = (\<lambda>h ns obj. Inl notFound),
      deleteResp = (\<lambda>h ns name opts. Some notFound),
      listResp = (\<lambda>h ns opts. Inr [])\<rparr>"

definition lingeringPods :: "objectMeta server" where
  "lingeringPods = listServer (\<lambda>h. Inr [examplePod ''prometheus-k8s-0''])"

definition holding :: "'o \<Rightarrow> 'o server" where
  "holding obj = scriptServer (\<lambda>h. Inr obj)"

definition exampleService :: "string \<Rightarrow> string \<Rightarrow> string \<Rightarrow> service" where
  "exampleService type clusterIP version =
     \<lparr>Name = ''alertmanager-main'', Namespace = ''monitoring'', ResourceVersion = version,
      Generation = 0,
      service.Spec = \<lparr>serviceSpec.Type = type, ClusterIP = clusterIP\<rparr>\<rparr>"

definition exampleClusterRole :: "string \<Rightarrow> objectMeta" where
  "exampleClusterRole version =
     \<lparr>Name = ''prometheus-k8s'', Namespace = '''', ResourceVersion = version, Generation = 0\<rparr>"

definition exampleDaemonSet :: daemonSet where
  "exampleDaemonSet =
     \<lparr>Name = ''node-exporter'', Namespace = ''monitoring'', ResourceVersion = ''11'',
      Generation = 1,
      daemonSet.Status =
        \<lparr>daemonSetStatus.ObservedGeneration = 1, DesiredNumberScheduled = 3,
         UpdatedNumberScheduled = 3, NumberUnavailable = 0\<rparr>\<rparr>"

definition unreachable :: "'o server" where
  "unreachable =
     \<lparr>getResp = (\<lambda>h ns name. Inl (ErrorString ''connection refused'')),
      createResp = (\<lambda>h ns obj. Inl (ErrorString ''connection refused'')),
      updateResp = (\<lambda>h ns obj. Inl (ErrorString ''connection refused'')),
      deleteResp = (\<lambda>h ns name opts. Some (ErrorString ''connection refused'')),
      listResp = (\<lambda>h ns opts. Inl (ErrorString ''connection refused''))\<rparr>"

definition rollingDaemonSet :: "64 word \<Rightarrow> 32 word \<Rightarrow> 32 word \<Rightarrow> daemonSet" where
  "rollingDaemonSet observedGeneration updatedNumberScheduled numberUnavailable =
     \<lparr>Name = ''node-exporter'', Namespace = ''monitoring'', ResourceVersion = ''11'',
      Generation = 2,
      daemonSet.Status =
        \<lparr>daemonSetStatus.ObservedGeneration = observedGeneration, DesiredNumberScheduled = 3,
         UpdatedNumberScheduled = updatedNumberScheduled,
         NumberUnavailable = numberUnavailable\<rparr>\<rparr>"

definition daemonSetServer :: "daemonSet server" where
  "daemonSetServer =
     scriptServer (replay (Inr (rollingDaemonSet 2 3 0))
       [Inr (rollingDaemonSet 1 2 1), Inr (rollingDaemonSet 1 2 1), Inr (rollingDaemonSet 1 2 1)])"

definition createdDeployments :: "deployment server" where
  "createdDeployments = scriptServer (replay (Inr (exampleDeployment 2 3 0)) [Inl notFound])"

definition createdDaemonSets :: "daemonSet server" where
  "createdDaemonSets = scriptServer (replay (Inr (rollingDaemonSet 2 3 0)) [Inl notFound])"

definition flakyDaemonSets :: "daemonSet server" where
  "flakyDaemonSets =
     scriptServer (replay (Inl (ErrorString ''connection refused''))
       [Inr (rollingDaemonSet 1 2 1)])"

section \<open>Facts about the poller\<close>

lemma WaitFor_pos:
  "0 < n \<Longrightarrow> WaitFor n fn w =
     (case fn w of
        ((ok, err), w') \<Rightarrow>
          if err \<noteq> None then (err, w')
          else if ok then (None, w')
          else WaitFor (n - 1) fn w')"
  by (cases n) (simp_all split: prod.splits)

lemma ticks_rollout: "ticks Second deploymentCreateTimeout = 300"
  by (simp add: ticks_def Second_def Minute_def deploymentCreateTimeout_def)

lemma ticks_crd: "ticks (5 * Second) (5 * Minute) = 60"
  by (simp add: ticks_def Second_def Minute_def)

lemma ticks_pods: "ticks (Second * 10) (Minute * 10) = 60"
  by (simp add: ticks_def Second_def Minute_def)

text \<open>
  A poll that returns \<^verbatim>\<open>nil\<close> ended on a tick whose condition was true, and every
  property the condition preserves holds of the state that tick started from.
\<close>

lemma WaitFor_None_inv:
  assumes "WaitFor n fn w = (None, w')"
    and "P w"
    and "\<And>v v'. P v \<Longrightarrow> fn v = ((False, None), v') \<Longrightarrow> P v'"
  shows "\<exists>w0. P w0 \<and> fn w0 = ((True, None), w')"
  using assms(1,2)
proof (induction n arbitrary: w)
  case 0
  then show ?case by simp
next
  case (Suc n)
  obtain ok err w1 where step: "fn w = ((ok, err), w1)"
    by (metis surj_pair)
  show ?case
  proof (cases err)
    case (Some e)
    with Suc.prems(1) step show ?thesis by simp
  next
    case None
    show ?thesis
    proof (cases ok)
      case True
      with None Suc.prems step show ?thesis by auto
    next
      case False
      with None Suc.prems(1) step have "WaitFor n fn w1 = (None, w')" by simp
      moreover have "P w1" using assms(3) [OF Suc.prems(2)] step None False by simp
      ultimately show ?thesis by (rule Suc.IH)
    qed
  qed
qed

text \<open>
  When every tick appends the same call \<open>c\<close> to the history, a poll that returns
  \<^verbatim>\<open>nil\<close> made between one and \<open>n\<close> such calls, and the last one was answered
  with a state on which the condition is true.
\<close>

lemma WaitFor_trace_None:
  assumes step: "\<And>v. snd (fn v) = v @ [c]"
    and "WaitFor n fn w = (None, w')"
  shows "\<exists>k<n. w' = w @ replicate (Suc k) c \<and> fn (w @ replicate k c) = ((True, None), w')"
  using assms(2)
proof (induction n arbitrary: w)
  case 0
  then show ?case by simp
next
  case (Suc n)
  obtain ok err w1 where fw: "fn w = ((ok, err), w1)"
    by (metis surj_pair)
  have w1: "w1 = w @ [c]"
    using step [of w] fw by simp
  show ?case
  proof (cases err)
    case (Some e)
    with Suc.prems fw show ?thesis by simp
  next
    case None
    show ?thesis
    proof (cases ok)
      case True
      with None Suc.prems fw have "w' = w1" by simp
      with True None fw w1 have "w' = w @ replicate (Suc 0) c \<and> fn (w @ replicate 0 c) = ((True, None), w')"
        by simp
      then show ?thesis by blast
    next
      case False
      with None Suc.prems fw have "WaitFor n fn w1 = (None, w')" by simp
      from Suc.IH [OF this] obtain k where k: "k < n" "w' = w1 @ replicate (Suc k) c"
        "fn (w1 @ replicate k c) = ((True, None), w')" by blast
      have "w1 @ replicate k c = w @ replicate (Suc k) c"
        by (simp add: w1 replicate_append_same)
      moreover have "w1 @ replicate (Suc k) c = w @ replicate (Suc (Suc k)) c"
        by (simp add: w1 replicate_append_same)
      ultimately have "Suc k < Suc n \<and> w' = w @ replicate (Suc (Suc k)) c
          \<and> fn (w @ replicate (Suc k) c) = ((True, None), w')"
        using k by simp
      then show ?thesis by blast
    qed
  qed
qed

section \<open>Reconciling: the credential-bearing account\<close>

text \<open>
  C5. For the ServiceAccount kind, reconciling an identity that is present makes no
  Update call, whatever the desired and the observed object are: the only call is the
  Get, and the result is \<^verbatim>\<open>nil\<close>. In every case the calls made are a Get, followed by
  a Create exactly when the Get reported not-found; an Update is never among them.
\<close>

theorem service_account_never_updated:
  fixes sClient :: "'a objectMeta_scheme server"
  shows "(getResp sClient h (GetNamespace sa) (GetName sa) = Inr observed \<longrightarrow>
           CreateOrUpdateServiceAccount sClient sa h =
             (None, h @ [GetCall (GetNamespace sa) (GetName sa)]))
       \<and> (\<exists>calls. snd (CreateOrUpdateServiceAccount sClient sa h) = h @ calls
             \<and> (\<forall>ns obj. UpdateCall ns obj \<notin> set calls)
             \<and> (CreateCall (GetNamespace sa) sa \<in> set calls
                  \<longleftrightarrow> IsNotFound (errOf (getResp sClient h (GetNamespace sa) (GetName sa)))))"
  by (auto simp: CreateOrUpdateServiceAccount_def clientGet_def clientCreate_def errOf_def
        IsNotFound_def StatusReasonNotFound_def StatusReasonUnknown_def
        split: sum.splits)

theorem service_account_never_updated_witness:
  "getResp presentServer [] ''monitoring'' ''prometheus-k8s'' = Inr (exampleAccount ''42'')
   \<and> CreateOrUpdateServiceAccount presentServer (exampleAccount '''') [] =
       (None, [GetCall ''monitoring'' ''prometheus-k8s''])"
  using service_account_never_updated
    [of presentServer "[]" "exampleAccount ''''" "exampleAccount ''42''"]
  by (simp add: presentServer_def scriptServer_def exampleAccount_def GetName_def GetNamespace_def)

section \<open>Readiness: workload rollout\<close>

text \<open>
  C6. On a tick whose Get returns the deployment \<open>d\<close>, the rollout predicate reports
  ready exactly when the generation is at most the observed generation, the updated
  replicas equal the replicas and no replica is unavailable; it reports no error and
  makes that one Get.
\<close>

theorem deployment_rollout_ready_iff:
  assumes "getResp deployments h (GetNamespace dep) (GetName dep) = Inr d"
  shows "WaitForDeploymentRollout_condition deployments dep h =
     ((sint (Generation d) \<le> sint (deploymentStatus.ObservedGeneration (deployment.Status d))
         \<and> UpdatedReplicas (deployment.Status d) = Replicas (deployment.Status d)
         \<and> UnavailableReplicas (deployment.Status d) = 0, None),
      h @ [GetCall (GetNamespace dep) (GetName dep)])"
  using assms by (simp add: WaitForDeploymentRollout_condition_def clientGet_def)

text \<open>
  The scenario of the specification: generation 2 with observed generation 1, 2 updated
  of 3 replicas and 1 unavailable is pending; the next fetch, with observed generation
  2, 3 updated replicas and none unavailable, is ready, and the wait returns \<^verbatim>\<open>nil\<close>
  after these two fetches.
\<close>

theorem deployment_rollout_ready_iff_witness:
  "getResp rolloutServer [] ''monitoring'' ''web'' = Inr (exampleDeployment 1 2 1)
   \<and> WaitForDeploymentRollout_condition rolloutServer (exampleDeployment 1 2 1) [] =
       ((False, None), [GetCall ''monitoring'' ''web''])
   \<and> WaitForDeploymentRollout_condition rolloutServer (exampleDeployment 1 2 1)
         [GetCall ''monitoring'' ''web''] =
       ((True, None), [GetCall ''monitoring'' ''web'', GetCall ''monitoring'' ''web''])
   \<and> WaitForDeploymentRollout rolloutServer (exampleDeployment 1 2 1) [] =
       (None, [GetCall ''monitoring'' ''web'', GetCall ''monitoring'' ''web''])"
proof -
  let ?dep = "exampleDeployment 1 2 1"
  let ?get = "GetCall ''monitoring'' ''web'' :: deployment call"
  have names: "GetNamespace ?dep = ''monitoring''" "GetName ?dep = ''web''"
    by (simp_all add: GetNamespace_def GetName_def exampleDeployment_def)
  have g1: "getResp rolloutServer [] (GetNamespace ?dep) (GetName ?dep) = Inr (exampleDeployment 1 2 1)"
    by (simp add: rolloutServer_def scriptServer_def replay_def)
  have g2: "getResp rolloutServer [?get] (GetNamespace ?dep) (GetName ?dep) = Inr (exampleDeployment 2 3 0)"
    by (simp add: rolloutServer_def scriptServer_def replay_def)
  have c1: "WaitForDeploymentRollout_condition rolloutServer ?dep [] = ((False, None), [?get])"
    using deployment_rollout_ready_iff [OF g1] unfolding names by (simp add: exampleDeployment_def)
  have c2: "WaitForDeploymentRollout_condition rolloutServer ?dep [?get] = ((True, None), [?get, ?get])"
    using deployment_rollout_ready_iff [OF g2] unfolding names by (simp add: exampleDeployment_def)
  have "WaitForDeploymentRollout rolloutServer ?dep [] = (None, [?get, ?get])"
    by (simp add: WaitForDeploymentRollout_def Poll_def ticks_rollout WaitFor_pos c1 c2)
  with g1 c1 c2 show ?thesis by (simp add: names)
qed

section \<open>Readiness: route admission\<close>

lemma admitted_iff:
  "WaitForRouteReady_admitted cs \<longleftrightarrow>
     (\<exists>c \<in> set cs. routeIngressCondition.Type c = ''Admitted'' \<and> routeIngressCondition.Status c = ''True'')"
  by (induction cs) auto

lemma route_condition:
  assumes "getResp routes h (GetNamespace r) (GetName r) = Inr newRoute"
  shows "WaitForRouteReady_condition routes r (host, h) =
     (case Ingress (route.Status newRoute) of
        [] \<Rightarrow> ((False, None), (host, h @ [GetCall (GetNamespace r) (GetName r)]))
      | ingress0 # rest \<Rightarrow>
          if \<exists>c \<in> set (routeIngress.Conditions ingress0).
               routeIngressCondition.Type c = ''Admitted'' \<and> routeIngressCondition.Status c = ''True''
          then ((True, None), (Host (route.Spec newRoute), h @ [GetCall (GetNamespace r) (GetName r)]))
          else ((False, None), (host, h @ [GetCall (GetNamespace r) (GetName r)])))"
  using assms
  by (simp add: WaitForRouteReady_condition_def clientGet_def admitted_iff split: list.splits)

lemma route_condition_True:
  assumes "WaitForRouteReady_condition routes r (host0, h0) = ((True, None), (host, h'))"
  shows "\<exists>newRoute ingress0 rest.
           h' = h0 @ [GetCall (GetNamespace r) (GetName r)]
         \<and> getResp routes h0 (GetNamespace r) (GetName r) = Inr newRoute
         \<and> Ingress (route.Status newRoute) = ingress0 # rest
         \<and> (\<exists>c \<in> set (routeIngress.Conditions ingress0).
               routeIngressCondition.Type c = ''Admitted'' \<and> routeIngressCondition.Status c = ''True'')
         \<and> host = Host (route.Spec newRoute)"
  using assms
  by (auto simp: WaitForRouteReady_condition_def clientGet_def admitted_iff
        split: sum.splits list.splits if_splits)

lemma route_wait_success:
  assumes "WaitForRouteReady routes r h = ((host, None), h')"
  shows "\<exists>h0 newRoute ingress0 rest.
           h' = h0 @ [GetCall (GetNamespace r) (GetName r)]
         \<and> getResp routes h0 (GetNamespace r) (GetName r) = Inr newRoute
         \<and> Ingress (route.Status newRoute) = ingress0 # rest
         \<and> (\<exists>c \<in> set (routeIngress.Conditions ingress0).
               routeIngressCondition.Type c = ''Admitted'' \<and> routeIngressCondition.Status c = ''True'')
         \<and> host = Host (route.Spec newRoute)"
proof -
  from assms have "WaitFor (ticks Second deploymentCreateTimeout)
      (WaitForRouteReady_condition routes r) ('''', h) = (None, (host, h'))"
    by (simp add: WaitForRouteReady_def Poll_def split: prod.splits)
  from WaitFor_None_inv [OF this, of "\<lambda>v. True"]
  obtain w0 where "WaitForRouteReady_condition routes r w0 = ((True, None), (host, h'))"
    by auto
  then show ?thesis
    using route_condition_True [of routes r "fst w0" "snd w0" host h'] by auto
qed

text \<open>
  C7. On a tick whose Get returns a route with an empty ingress-status list, the route
  predicate is pending and leaves the host variable as it was (the empty string at the
  start of the wait). When the list is not empty, the predicate is ready exactly when the
  conditions of the first entry contain one of type Admitted with status True, and it
  then stores the route's spec host. A wait that returns no error returns the spec host
  of the route its last Get returned, and that route was admitted.
\<close>

theorem route_admission:
  "(getResp routes h (GetNamespace r) (GetName r) = Inr newRoute \<longrightarrow>
      WaitForRouteReady_condition routes r (host, h) =
        (case Ingress (route.Status newRoute) of
           [] \<Rightarrow> ((False, None), (host, h @ [GetCall (GetNamespace r) (GetName r)]))
         | ingress0 # rest \<Rightarrow>
             if \<exists>c \<in> set (routeIngress.Conditions ingress0).
                  routeIngressCondition.Type c = ''Admitted''
                  \<and> routeIngressCondition.Status c = ''True''
             then ((True, None),
                   (Host (route.Spec newRoute), h @ [GetCall (GetNamespace r) (GetName r)]))
             else ((False, None), (host, h @ [GetCall (GetNamespace r) (GetName r)]))))
   \<and> (WaitForRouteReady routes r h = ((host', None), h') \<longrightarrow>
        (\<exists>h0 observed ingress0 rest.
            h' = h0 @ [GetCall (GetNamespace r) (GetName r)]
          \<and> getResp routes h0 (GetNamespace r) (GetName r) = Inr observed
          \<and> Ingress (route.Status observed) = ingress0 # rest
          \<and> (\<exists>c \<in> set (routeIngress.Conditions ingress0).
                routeIngressCondition.Type c = ''Admitted''
                \<and> routeIngressCondition.Status c = ''True'')
          \<and> host' = Host (route.Spec observed)))"
  using route_condition [of routes h r newRoute host] route_wait_success [of routes r h host' h']
  by blast

text \<open>
  The scenario of the specification: the first fetch shows no ingress status, the second
  an admitted first entry and the spec host \<open>example.test\<close>.
\<close>

theorem route_admission_witness:
  "getResp routeServer [] ''monitoring'' ''grafana'' = Inr (exampleRoute [])
   \<and> WaitForRouteReady_condition routeServer (exampleRoute []) ('''', []) =
       ((False, None), ('''', [GetCall ''monitoring'' ''grafana'']))
   \<and> WaitForRouteReady_condition routeServer (exampleRoute [])
         ('''', [GetCall ''monitoring'' ''grafana'']) =
       ((True, None),
        (''example.test'', [GetCall ''monitoring'' ''grafana'', GetCall ''monitoring'' ''grafana'']))
   \<and> WaitForRouteReady routeServer (exampleRoute []) [] =
       ((''example.test'', None),
        [GetCall ''monitoring'' ''grafana'', GetCall ''monitoring'' ''grafana''])"
proof -
  let ?r = "exampleRoute []"
  let ?get = "GetCall ''monitoring'' ''grafana'' :: route call"
  have names: "GetNamespace ?r = ''monitoring''" "GetName ?r = ''grafana''"
    by (simp_all add: GetNamespace_def GetName_def exampleRoute_def)
  have g1: "getResp routeServer [] (GetNamespace ?r) (GetName ?r) = Inr (exampleRoute [])"
    by (simp add: routeServer_def scriptServer_def replay_def)
  have g2: "getResp routeServer [?get] (GetNamespace ?r) (GetName ?r) = Inr (exampleRoute [admittedIngress])"
    by (simp add: routeServer_def scriptServer_def replay_def)
  have c1: "WaitForRouteReady_condition routeServer ?r ('''', []) = ((False, None), ('''', [?get]))"
    using route_admission [of routeServer "[]" ?r "exampleRoute []" "''''"] g1
    unfolding names by (simp add: exampleRoute_def)
  have c2: "WaitForRouteReady_condition routeServer ?r ('''', [?get]) =
      ((True, None), (''example.test'', [?get, ?get]))"
    using route_admission [of routeServer "[?get]" ?r "exampleRoute [admittedIngress]" "''''"] g2
    unfolding names by (simp add: exampleRoute_def admittedIngress_def)
  have "WaitForRouteReady routeServer ?r [] = ((''example.test'', None), [?get, ?get])"
    by (simp add: WaitForRouteReady_def Poll_def ticks_rollout WaitFor_pos c1 c2)
  with g1 c1 c2 show ?thesis by (simp add: names)
qed

section \<open>Readiness: schema establishment\<close>

lemma CRDReady_conditions_skip:
  assumes "\<forall>p \<in> set pre.
      \<not> (customResourceDefinitionCondition.Type p = Established
           \<and> customResourceDefinitionCondition.Status p = ConditionTrue)
    \<and> \<not> (customResourceDefinitionCondition.Type p = NamesAccepted
           \<and> customResourceDefinitionCondition.Status p = ConditionFalse)"
  shows "CRDReady_conditions name (pre @ rest) = CRDReady_conditions name rest"
  using assms by (induction pre) auto

lemma Established_neq_NamesAccepted: "Established \<noteq> NamesAccepted"
  by (simp add: Established_def NamesAccepted_def)

lemma WaitForCRDReady_first_tick:
  assumes "CRDReady crdClient crd h = ((ok, err), h1)" and "ok \<or> err \<noteq> None"
  shows "WaitForCRDReady crdClient crd h = (err, h1)"
  using assms by (auto simp: WaitForCRDReady_def Poll_def ticks_crd WaitFor_pos)

text \<open>
  C2, as the code has it. \<^verbatim>\<open>CRDReady\<close> reads the conditions in order and the first
  decisive one wins. When the first condition that is Established with status True or
  NamesAccepted with status False is Established/True, the predicate is ready and the
  wait returns \<^verbatim>\<open>nil\<close> on that tick. When it is NamesAccepted/False, the predicate
  returns the naming-conflict error, which carries the name of the definition and the
  reason of that condition and is not the timeout error, and the wait returns that
  error on that tick, the first one included, after a single Get.
\<close>

theorem crd_first_decisive_condition:
  assumes "getResp crdClient h NamespaceNone (Name crd) = Inr crdEst"
    and "customResourceDefinitionStatus.Conditions (customResourceDefinition.Status crdEst)
           = pre @ c # post"
    and "\<forall>p \<in> set pre.
        \<not> (customResourceDefinitionCondition.Type p = Established
             \<and> customResourceDefinitionCondition.Status p = ConditionTrue)
      \<and> \<not> (customResourceDefinitionCondition.Type p = NamesAccepted
             \<and> customResourceDefinitionCondition.Status p = ConditionFalse)"
  shows "(customResourceDefinitionCondition.Type c = Established
            \<and> customResourceDefinitionCondition.Status c = ConditionTrue \<longrightarrow>
          CRDReady crdClient crd h = ((True, None), h @ [GetCall NamespaceNone (Name crd)])
        \<and> WaitForCRDReady crdClient crd h = (None, h @ [GetCall NamespaceNone (Name crd)]))
       \<and> (customResourceDefinitionCondition.Type c = NamesAccepted
            \<and> customResourceDefinitionCondition.Status c = ConditionFalse \<longrightarrow>
          CRDReady crdClient crd h =
            ((False, Some (ErrorString (''CRD naming conflict ('' @ Name crd @ ''): '' @ Reason c))),
             h @ [GetCall NamespaceNone (Name crd)])
        \<and> WaitForCRDReady crdClient crd h =
            (Some (ErrorString (''CRD naming conflict ('' @ Name crd @ ''): '' @ Reason c)),
             h @ [GetCall NamespaceNone (Name crd)])
        \<and> ErrorString (''CRD naming conflict ('' @ Name crd @ ''): '' @ Reason c) \<noteq> ErrWaitTimeout)"
proof -
  have ready: "CRDReady crdClient crd h =
      (CRDReady_conditions (Name crd) (c # post), h @ [GetCall NamespaceNone (Name crd)])"
    using assms(1,2) CRDReady_conditions_skip [OF assms(3)]
    by (simp add: CRDReady_def clientGet_def)
  show ?thesis
  proof (intro conjI impI)
    assume est: "customResourceDefinitionCondition.Type c = Established
        \<and> customResourceDefinitionCondition.Status c = ConditionTrue"
    with ready show r: "CRDReady crdClient crd h = ((True, None), h @ [GetCall NamespaceNone (Name crd)])"
      by simp
    show "WaitForCRDReady crdClient crd h = (None, h @ [GetCall NamespaceNone (Name crd)])"
      by (rule WaitForCRDReady_first_tick [OF r]) simp
  next
    assume na: "customResourceDefinitionCondition.Type c = NamesAccepted
        \<and> customResourceDefinitionCondition.Status c = ConditionFalse"
    with ready show r: "CRDReady crdClient crd h =
        ((False, Some (ErrorString (''CRD naming conflict ('' @ Name crd @ ''): '' @ Reason c))),
         h @ [GetCall NamespaceNone (Name crd)])"
      using Established_neq_NamesAccepted by simp
    show "WaitForCRDReady crdClient crd h =
        (Some (ErrorString (''CRD naming conflict ('' @ Name crd @ ''): '' @ Reason c)),
         h @ [GetCall NamespaceNone (Name crd)])"
      by (rule WaitForCRDReady_first_tick [OF r]) simp
  next
    show "ErrorString (''CRD naming conflict ('' @ Name crd @ ''): '' @ Reason c) \<noteq> ErrWaitTimeout"
      by simp
  qed
qed

text \<open>
  Two definitions fetched on the first tick of a wait: one whose conditions are
  NamesAccepted/True then Established/True, one whose conditions are Established/False
  then NamesAccepted/False with the reason \<open>ListKindConflict\<close>.
\<close>

theorem crd_first_decisive_condition_witness:
  "WaitForCRDReady
      (crdServer [crdCondition NamesAccepted ConditionTrue ''NoConflicts'',
                  crdCondition Established ConditionTrue ''InitialNamesAccepted''])
      (exampleCRD []) [] =
     (None, [GetCall '''' ''prometheuses.monitoring.coreos.com''])
   \<and> WaitForCRDReady
      (crdServer [crdCondition Established ConditionFalse ''Installing'',
                  crdCondition NamesAccepted ConditionFalse ''ListKindConflict''])
      (exampleCRD []) [] =
     (Some (ErrorString
        ''CRD naming conflict (prometheuses.monitoring.coreos.com): ListKindConflict''),
      [GetCall '''' ''prometheuses.monitoring.coreos.com''])"
proof -
  let ?ok = "[crdCondition NamesAccepted ConditionTrue ''NoConflicts'',
              crdCondition Established ConditionTrue ''InitialNamesAccepted'']"
  let ?bad = "[crdCondition Established ConditionFalse ''Installing'',
               crdCondition NamesAccepted ConditionFalse ''ListKindConflict'']"
  have names_distinct: "Established \<noteq> NamesAccepted" "ConditionTrue \<noteq> ConditionFalse"
    by (simp_all add: Established_def NamesAccepted_def ConditionTrue_def ConditionFalse_def)
  have a: "WaitForCRDReady (crdServer ?ok) (exampleCRD []) [] =
      (None, [] @ [GetCall NamespaceNone (Name (exampleCRD []))])"
    using crd_first_decisive_condition
      [of "crdServer ?ok" "[]" "exampleCRD []" "exampleCRD ?ok"
          "[crdCondition NamesAccepted ConditionTrue ''NoConflicts'']"
          "crdCondition Established ConditionTrue ''InitialNamesAccepted''" "[]"]
      names_distinct
    by (simp add: crdServer_def scriptServer_def exampleCRD_def crdCondition_def)
  have b: "WaitForCRDReady (crdServer ?bad) (exampleCRD []) [] =
      (Some (ErrorString (''CRD naming conflict ('' @ Name (exampleCRD []) @ ''): ''
          @ Reason (crdCondition NamesAccepted ConditionFalse ''ListKindConflict''))),
       [] @ [GetCall NamespaceNone (Name (exampleCRD []))])"
    using crd_first_decisive_condition
      [of "crdServer ?bad" "[]" "exampleCRD []" "exampleCRD ?bad"
          "[crdCondition Established ConditionFalse ''Installing'']"
          "crdCondition NamesAccepted ConditionFalse ''ListKindConflict''" "[]"]
      names_distinct
    by (simp add: crdServer_def scriptServer_def exampleCRD_def crdCondition_def)
  from a b show ?thesis
    by (simp add: NamespaceNone_def exampleCRD_def crdCondition_def)
qed

text \<open>
  The specification as written fails when both conditions are present: with Established/True
  ahead of NamesAccepted/False the predicate is ready and reports no naming conflict,
  and with the two in the other order it reports the conflict although Established is
  True.
\<close>

theorem crd_both_conditions_counterexample:
  "CRDReady
      (crdServer [crdCondition Established ConditionTrue ''InitialNamesAccepted'',
                  crdCondition NamesAccepted ConditionFalse ''ListKindConflict''])
      (exampleCRD []) [] =
     ((True, None), [GetCall '''' ''prometheuses.monitoring.coreos.com''])
   \<and> CRDReady
      (crdServer [crdCondition NamesAccepted ConditionFalse ''ListKindConflict'',
                  crdCondition Established ConditionTrue ''InitialNamesAccepted''])
      (exampleCRD []) [] =
     ((False, Some (ErrorString
        ''CRD naming conflict (prometheuses.monitoring.coreos.com): ListKindConflict'')),
      [GetCall '''' ''prometheuses.monitoring.coreos.com''])"
  by (simp add: CRDReady_def clientGet_def crdServer_def scriptServer_def exampleCRD_def
        crdCondition_def NamespaceNone_def Established_def NamesAccepted_def ConditionTrue_def
        ConditionFalse_def)

section \<open>The poller and errors of the predicate\<close>

lemma WaitFor_all_pending:
  assumes "\<And>v. fst (fn v) = (False, None)"
  shows "fst (WaitFor n fn w) = Some ErrWaitTimeout"
proof (induction n arbitrary: w)
  case 0
  then show ?case by simp
next
  case (Suc n)
  obtain w1 where "fn w = ((False, None), w1)"
    using assms [of w] by (metis prod.collapse)
  with Suc.IH [of w1] show ?case by simp
qed

lemma Poll_first_tick:
  assumes "fn w = ((ok, err), w')" and "ok \<or> err \<noteq> None"
  shows "Poll interval timeout fn w = (err, w')"
proof -
  have "0 < ticks interval timeout" by (simp add: ticks_def)
  with assms show ?thesis by (auto simp: Poll_def WaitFor_pos)
qed

text \<open>
  C3, as the code has it. The poller stops at the first tick on which the predicate
  returns an error, whatever the error is, and returns that error; only a tick that
  returns \<^verbatim>\<open>(false, nil)\<close> is pending, and a poll whose ticks are all pending ends
  with the timeout error. The predicates of the waits return the error of their Get
  (for the pods, of their List, wrapped), so a failed re-fetch ends the wait on that
  tick after that single call.
\<close>

theorem poll_stops_at_first_error:
  fixes fn :: "'w ConditionFunc"
    and deployments :: "'a deployment_scheme server"
    and daemonSets :: "'b daemonSet_scheme server"
    and routes :: "'c route_scheme server"
    and crdClient :: "'d customResourceDefinition_scheme server"
    and pods :: "'p server"
    and p :: "'e objectMeta_scheme"
  shows
   "(fn w = ((ok, Some err), w') \<longrightarrow>
       WaitFor (Suc n) fn w = (Some err, w') \<and> Poll interval timeout fn w = (Some err, w'))
  \<and> (fn w = ((False, None), w') \<longrightarrow> WaitFor (Suc n) fn w = WaitFor n fn w')
  \<and> ((\<forall>v. fst (fn v) = (False, None)) \<longrightarrow>
       fst (Poll interval timeout fn w) = Some ErrWaitTimeout)
  \<and> (getResp deployments h (GetNamespace dep) (GetName dep) = Inl e \<longrightarrow>
       WaitForDeploymentRollout deployments dep h =
         (Some e, h @ [GetCall (GetNamespace dep) (GetName dep)]))
  \<and> (getResp daemonSets hs (GetNamespace ds) (GetName ds) = Inl e \<longrightarrow>
       WaitForDaemonSetRollout daemonSets ds hs =
         (Some e, hs @ [GetCall (GetNamespace ds) (GetName ds)]))
  \<and> (getResp routes hr (GetNamespace r) (GetName r) = Inl e \<longrightarrow>
       WaitForRouteReady routes r hr =
         (('''', Some e), hr @ [GetCall (GetNamespace r) (GetName r)]))
  \<and> (getResp crdClient hc NamespaceNone (Name crd) = Inl e \<longrightarrow>
       WaitForCRDReady crdClient crd hc = (Some e, hc @ [GetCall NamespaceNone (Name crd)]))
  \<and> (listResp pods hp (GetNamespace p) (ListOptions (GetName p)) = Inl e \<longrightarrow>
       Poll (Second * 10) (Minute * 10) (DeletePrometheus_condition pods ListOptions p) hp =
         (Some (WithMessage e ''retrieving pods during polling failed''),
          hp @ [ListCall (GetNamespace p) (ListOptions (GetName p))]))"
proof (intro conjI impI)
  assume "fn w = ((ok, Some err), w')"
  then show "WaitFor (Suc n) fn w = (Some err, w')" by simp
next
  assume "fn w = ((ok, Some err), w')"
  then show "Poll interval timeout fn w = (Some err, w')"
    by (rule Poll_first_tick) simp
next
  assume "fn w = ((False, None), w')"
  then show "WaitFor (Suc n) fn w = WaitFor n fn w'" by simp
next
  assume "\<forall>v. fst (fn v) = (False, None)"
  then show "fst (Poll interval timeout fn w) = Some ErrWaitTimeout"
    by (simp add: Poll_def WaitFor_all_pending)
next
  assume "getResp deployments h (GetNamespace dep) (GetName dep) = Inl e"
  then have "WaitForDeploymentRollout_condition deployments dep h =
      ((False, Some e), h @ [GetCall (GetNamespace dep) (GetName dep)])"
    by (simp add: WaitForDeploymentRollout_condition_def clientGet_def)
  then show "WaitForDeploymentRollout deployments dep h =
      (Some e, h @ [GetCall (GetNamespace dep) (GetName dep)])"
    unfolding WaitForDeploymentRollout_def by (rule Poll_first_tick) simp
next
  assume "getResp daemonSets hs (GetNamespace ds) (GetName ds) = Inl e"
  then have "WaitForDaemonSetRollout_condition daemonSets ds hs =
      ((False, Some e), hs @ [GetCall (GetNamespace ds) (GetName ds)])"
    by (simp add: WaitForDaemonSetRollout_condition_def clientGet_def)
  then show "WaitForDaemonSetRollout daemonSets ds hs =
      (Some e, hs @ [GetCall (GetNamespace ds) (GetName ds)])"
    unfolding WaitForDaemonSetRollout_def by (rule Poll_first_tick) simp
next
  assume "getResp routes hr (GetNamespace r) (GetName r) = Inl e"
  then have "WaitForRouteReady_condition routes r ('''', hr) =
      ((False, Some e), ('''', hr @ [GetCall (GetNamespace r) (GetName r)]))"
    by (simp add: WaitForRouteReady_condition_def clientGet_def)
  then have "Poll Second deploymentCreateTimeout (WaitForRouteReady_condition routes r) ('''', hr) =
      (Some e, ('''', hr @ [GetCall (GetNamespace r) (GetName r)]))"
    by (rule Poll_first_tick) simp
  then show "WaitForRouteReady routes r hr =
      (('''', Some e), hr @ [GetCall (GetNamespace r) (GetName r)])"
    by (simp add: WaitForRouteReady_def)
next
  assume "getResp crdClient hc NamespaceNone (Name crd) = Inl e"
  then have "CRDReady crdClient crd hc = ((False, Some e), hc @ [GetCall NamespaceNone (Name crd)])"
    by (simp add: CRDReady_def clientGet_def)
  then show "WaitForCRDReady crdClient crd hc = (Some e, hc @ [GetCall NamespaceNone (Name crd)])"
    unfolding WaitForCRDReady_def by (rule Poll_first_tick) simp
next
  assume "listResp pods hp (GetNamespace p) (ListOptions (GetName p)) = Inl e"
  then have "DeletePrometheus_condition pods ListOptions p hp =
      ((False, Some (WithMessage e ''retrieving pods during polling failed'')),
       hp @ [ListCall (GetNamespace p) (ListOptions (GetName p))])"
    by (simp add: DeletePrometheus_condition_def clientList_def)
  then show "Poll (Second * 10) (Minute * 10) (DeletePrometheus_condition pods ListOptions p) hp =
      (Some (WithMessage e ''retrieving pods during polling failed''),
       hp @ [ListCall (GetNamespace p) (ListOptions (GetName p))])"
    by (rule Poll_first_tick) simp
qed

text \<open>
  A store whose first Get fails with a transport error and whose later Gets return a
  rolled-out deployment: the rollout wait returns the transport error after the first
  Get.
\<close>

theorem poll_stops_at_first_error_witness:
  "getResp flakyServer [] ''monitoring'' ''web'' = Inl (ErrorString ''connection refused'')
   \<and> WaitForDeploymentRollout flakyServer (exampleDeployment 2 3 0) [] =
       (Some (ErrorString ''connection refused''), [GetCall ''monitoring'' ''web''])"
proof -
  let ?dep = "exampleDeployment 2 3 0"
  have names: "GetNamespace ?dep = ''monitoring''" "GetName ?dep = ''web''"
    by (simp_all add: GetNamespace_def GetName_def exampleDeployment_def)
  have g: "getResp flakyServer [] (GetNamespace ?dep) (GetName ?dep) =
      Inl (ErrorString ''connection refused'')"
    by (simp add: flakyServer_def scriptServer_def replay_def)
  have "WaitForDeploymentRollout flakyServer ?dep [] =
      (Some (ErrorString ''connection refused''), [] @ [GetCall (GetNamespace ?dep) (GetName ?dep)])"
    by (rule poll_stops_at_first_error
          [THEN conjunct2, THEN conjunct2, THEN conjunct2, THEN conjunct1, THEN mp, OF g])
  with g show ?thesis by (simp add: names)
qed

text \<open>
  The specification as written fails on that store: the error of the first tick is an ordinary
  transport error, the second tick would have found the deployment rolled out, and the
  wait has already returned the error.
\<close>

theorem ordinary_error_aborts_counterexample:
  "WaitForDeploymentRollout flakyServer (exampleDeployment 2 3 0) [] =
     (Some (ErrorString ''connection refused''), [GetCall ''monitoring'' ''web''])
   \<and> WaitForDeploymentRollout_condition flakyServer (exampleDeployment 2 3 0)
       [GetCall ''monitoring'' ''web''] =
     ((True, None), [GetCall ''monitoring'' ''web'', GetCall ''monitoring'' ''web''])"
  by (simp add: WaitForDeploymentRollout_def Poll_def ticks_rollout WaitFor_pos
        WaitForDeploymentRollout_condition_def clientGet_def flakyServer_def scriptServer_def
        replay_def exampleDeployment_def GetNamespace_def GetName_def)

section \<open>Deleting the Prometheus object\<close>





section \<open>Reconciling workloads blocks on the rollout\<close>

lemma Wrap_None: "Wrap err message = None \<longleftrightarrow> err = None"
  by (cases err) simp_all

lemma WaitForDeploymentRollout_condition_snd:
  "snd (WaitForDeploymentRollout_condition deployments d v) =
     v @ [GetCall (GetNamespace d) (GetName d)]"
  by (simp add: WaitForDeploymentRollout_condition_def clientGet_def split: sum.splits)

lemma WaitForDaemonSetRollout_condition_snd:
  "snd (WaitForDaemonSetRollout_condition daemonSets d v) =
     v @ [GetCall (GetNamespace d) (GetName d)]"
  by (simp add: WaitForDaemonSetRollout_condition_def clientGet_def split: sum.splits)

lemma WaitForDeploymentRollout_None:
  assumes "WaitForDeploymentRollout deployments d h = (None, h')"
  shows "\<exists>k observed. k < ticks Second deploymentCreateTimeout
      \<and> h' = h @ replicate (Suc k) (GetCall (GetNamespace d) (GetName d))
      \<and> getResp deployments (h @ replicate k (GetCall (GetNamespace d) (GetName d)))
            (GetNamespace d) (GetName d) = Inr observed
      \<and> sint (Generation observed)
            \<le> sint (deploymentStatus.ObservedGeneration (deployment.Status observed))
      \<and> UpdatedReplicas (deployment.Status observed) = Replicas (deployment.Status observed)
      \<and> UnavailableReplicas (deployment.Status observed) = 0"
proof -
  let ?c = "GetCall (GetNamespace d) (GetName d) :: 'a deployment_scheme call"
  from assms have "WaitFor (ticks Second deploymentCreateTimeout)
      (WaitForDeploymentRollout_condition deployments d) h = (None, h')"
    by (simp add: WaitForDeploymentRollout_def Poll_def)
  from WaitFor_trace_None [OF WaitForDeploymentRollout_condition_snd this]
  obtain k where k: "k < ticks Second deploymentCreateTimeout" "h' = h @ replicate (Suc k) ?c"
    "WaitForDeploymentRollout_condition deployments d (h @ replicate k ?c) = ((True, None), h')"
    by blast
  from k(3) obtain observed where
    "getResp deployments (h @ replicate k ?c) (GetNamespace d) (GetName d) = Inr observed"
    "sint (Generation observed)
        \<le> sint (deploymentStatus.ObservedGeneration (deployment.Status observed))
      \<and> UpdatedReplicas (deployment.Status observed) = Replicas (deployment.Status observed)
      \<and> UnavailableReplicas (deployment.Status observed) = 0"
    by (auto simp: WaitForDeploymentRollout_condition_def clientGet_def
          split: sum.splits if_splits)
  with k(1,2) show ?thesis by blast
qed

lemma WaitForDaemonSetRollout_None:
  assumes "WaitForDaemonSetRollout daemonSets d h = (None, h')"
  shows "\<exists>k observed. k < ticks Second deploymentCreateTimeout
      \<and> h' = h @ replicate (Suc k) (GetCall (GetNamespace d) (GetName d))
      \<and> getResp daemonSets (h @ replicate k (GetCall (GetNamespace d) (GetName d)))
            (GetNamespace d) (GetName d) = Inr observed
      \<and> sint (Generation observed)
            \<le> sint (daemonSetStatus.ObservedGeneration (daemonSet.Status observed))
      \<and> UpdatedNumberScheduled (daemonSet.Status observed)
            = DesiredNumberScheduled (daemonSet.Status observed)
      \<and> NumberUnavailable (daemonSet.Status observed) = 0"
proof -
  let ?c = "GetCall (GetNamespace d) (GetName d) :: 'a daemonSet_scheme call"
  from assms have "WaitFor (ticks Second deploymentCreateTimeout)
      (WaitForDaemonSetRollout_condition daemonSets d) h = (None, h')"
    by (simp add: WaitForDaemonSetRollout_def Poll_def)
  from WaitFor_trace_None [OF WaitForDaemonSetRollout_condition_snd this]
  obtain k where k: "k < ticks Second deploymentCreateTimeout" "h' = h @ replicate (Suc k) ?c"
    "WaitForDaemonSetRollout_condition daemonSets d (h @ replicate k ?c) = ((True, None), h')"
    by blast
  from k(3) obtain observed where
    "getResp daemonSets (h @ replicate k ?c) (GetNamespace d) (GetName d) = Inr observed"
    "sint (Generation observed)
        \<le> sint (daemonSetStatus.ObservedGeneration (daemonSet.Status observed))
      \<and> UpdatedNumberScheduled (daemonSet.Status observed)
            = DesiredNumberScheduled (daemonSet.Status observed)
      \<and> NumberUnavailable (daemonSet.Status observed) = 0"
    by (auto simp: WaitForDaemonSetRollout_condition_def clientGet_def
          split: sum.splits if_splits)
  with k(1,2) show ?thesis by blast
qed

lemma CreateOrUpdateDeployment_cases:
  "CreateOrUpdateDeployment deployments dep h =
     (case getResp deployments h (GetNamespace dep) (GetName dep) of
        Inl err \<Rightarrow>
          if IsNotFound (Some err) then
            (case createResp deployments (h @ [GetCall (GetNamespace dep) (GetName dep)]) (GetNamespace dep) dep of
               Inl err1 \<Rightarrow>
                 (Some (WithMessage err1 ''creating deployment object failed''),
                  h @ [GetCall (GetNamespace dep) (GetName dep), CreateCall (GetNamespace dep) dep])
             | Inr d \<Rightarrow>
                 (Wrap (fst (WaitForDeploymentRollout deployments d (h @ [GetCall (GetNamespace dep) (GetName dep), CreateCall (GetNamespace dep) dep])))
                    ''creating deployment object failed'',
                  snd (WaitForDeploymentRollout deployments d (h @ [GetCall (GetNamespace dep) (GetName dep), CreateCall (GetNamespace dep) dep]))))
          else (Some (WithMessage err ''retrieving deployment object failed''),
                h @ [GetCall (GetNamespace dep) (GetName dep)])
      | Inr observed \<Rightarrow>
          (case updateResp deployments (h @ [GetCall (GetNamespace dep) (GetName dep)]) (GetNamespace dep) dep of
             Inl err1 \<Rightarrow>
               (Some (WithMessage err1 ''updating deployment object failed''),
                h @ [GetCall (GetNamespace dep) (GetName dep), UpdateCall (GetNamespace dep) dep])
           | Inr d \<Rightarrow>
               (Wrap (fst (WaitForDeploymentRollout deployments d (h @ [GetCall (GetNamespace dep) (GetName dep), UpdateCall (GetNamespace dep) dep])))
                  ''updating deployment object failed'',
                snd (WaitForDeploymentRollout deployments d (h @ [GetCall (GetNamespace dep) (GetName dep), UpdateCall (GetNamespace dep) dep])))))"
  by (simp add: CreateOrUpdateDeployment_def CreateDeployment_def UpdateDeployment_def
        clientGet_def clientCreate_def clientUpdate_def Let_def
        split: sum.splits prod.splits)

lemma CreateOrUpdateDaemonSet_cases:
  "CreateOrUpdateDaemonSet daemonSets ds h =
     (case getResp daemonSets h (GetNamespace ds) (GetName ds) of
        Inl err \<Rightarrow>
          if IsNotFound (Some err) then
            (case createResp daemonSets (h @ [GetCall (GetNamespace ds) (GetName ds)]) (GetNamespace ds) ds of
               Inl err1 \<Rightarrow>
                 (Some (WithMessage err1 ''creating DaemonSet object failed''),
                  h @ [GetCall (GetNamespace ds) (GetName ds), CreateCall (GetNamespace ds) ds])
             | Inr d \<Rightarrow>
                 (Wrap (fst (WaitForDaemonSetRollout daemonSets d (h @ [GetCall (GetNamespace ds) (GetName ds), CreateCall (GetNamespace ds) ds])))
                    ''creating DaemonSet object failed'',
                  snd (WaitForDaemonSetRollout daemonSets d (h @ [GetCall (GetNamespace ds) (GetName ds), CreateCall (GetNamespace ds) ds]))))
          else (Some (WithMessage err ''retrieving DaemonSet object failed''),
                h @ [GetCall (GetNamespace ds) (GetName ds)])
      | Inr observed \<Rightarrow>
          (case updateResp daemonSets (h @ [GetCall (GetNamespace ds) (GetName ds)]) (GetNamespace ds) ds of
             Inl err1 \<Rightarrow>
               (Some (WithMessage err1 ''updating DaemonSet object failed''),
                h @ [GetCall (GetNamespace ds) (GetName ds), UpdateCall (GetNamespace ds) ds])
           | Inr d \<Rightarrow>
               (Wrap (fst (WaitForDaemonSetRollout daemonSets d (h @ [GetCall (GetNamespace ds) (GetName ds), UpdateCall (GetNamespace ds) ds])))
                  ''updating DaemonSet object failed'',
                snd (WaitForDaemonSetRollout daemonSets d (h @ [GetCall (GetNamespace ds) (GetName ds), UpdateCall (GetNamespace ds) ds])))))"
  by (simp add: CreateOrUpdateDaemonSet_def CreateDaemonSet_def UpdateDaemonSet_def
        clientGet_def clientCreate_def clientUpdate_def Let_def
        split: sum.splits prod.splits)

lemma CreateOrUpdateDeployment_None:
  assumes "CreateOrUpdateDeployment deployments dep h = (None, h')"
  shows "\<exists>written d k observed.
        (written = CreateCall (GetNamespace dep) dep
           \<and> createResp deployments (h @ [GetCall (GetNamespace dep) (GetName dep)])
                (GetNamespace dep) dep = Inr d
         \<or> written = UpdateCall (GetNamespace dep) dep
           \<and> updateResp deployments (h @ [GetCall (GetNamespace dep) (GetName dep)])
                (GetNamespace dep) dep = Inr d)
      \<and> k < ticks Second deploymentCreateTimeout
      \<and> h' = h @ [GetCall (GetNamespace dep) (GetName dep), written]
               @ replicate (Suc k) (GetCall (GetNamespace d) (GetName d))
      \<and> getResp deployments
           (h @ [GetCall (GetNamespace dep) (GetName dep), written]
              @ replicate k (GetCall (GetNamespace d) (GetName d)))
           (GetNamespace d) (GetName d) = Inr observed
      \<and> sint (Generation observed)
            \<le> sint (deploymentStatus.ObservedGeneration (deployment.Status observed))
      \<and> UpdatedReplicas (deployment.Status observed) = Replicas (deployment.Status observed)
      \<and> UnavailableReplicas (deployment.Status observed) = 0"
proof -
  let ?ns = "GetNamespace dep"
  let ?h1 = "h @ [GetCall ?ns (GetName dep)]"
  have "\<exists>written d.
      (written = CreateCall ?ns dep \<and> createResp deployments ?h1 ?ns dep = Inr d
        \<or> written = UpdateCall ?ns dep \<and> updateResp deployments ?h1 ?ns dep = Inr d)
      \<and> WaitForDeploymentRollout deployments d (?h1 @ [written]) = (None, h')"
  proof (cases "getResp deployments h ?ns (GetName dep)")
    case (Inl err)
    with assms have nf: "IsNotFound (Some err)"
      unfolding CreateOrUpdateDeployment_cases by (auto split: if_splits)
    with Inl assms obtain d where cr: "createResp deployments ?h1 ?ns dep = Inr d"
      unfolding CreateOrUpdateDeployment_cases by (auto split: sum.splits)
    from Inl nf cr assms
    have "WaitForDeploymentRollout deployments d (?h1 @ [CreateCall ?ns dep]) = (None, h')"
      unfolding CreateOrUpdateDeployment_cases
      by (cases "WaitForDeploymentRollout deployments d (?h1 @ [CreateCall ?ns dep])")
        (simp add: Wrap_None)
    with cr show ?thesis by blast
  next
    case (Inr observed)
    with assms obtain d where up: "updateResp deployments ?h1 ?ns dep = Inr d"
      unfolding CreateOrUpdateDeployment_cases by (auto split: sum.splits)
    from Inr up assms
    have "WaitForDeploymentRollout deployments d (?h1 @ [UpdateCall ?ns dep]) = (None, h')"
      unfolding CreateOrUpdateDeployment_cases
      by (cases "WaitForDeploymentRollout deployments d (?h1 @ [UpdateCall ?ns dep])")
        (simp add: Wrap_None)
    with up show ?thesis by blast
  qed
  then obtain written d where
    w: "written = CreateCall ?ns dep \<and> createResp deployments ?h1 ?ns dep = Inr d
        \<or> written = UpdateCall ?ns dep \<and> updateResp deployments ?h1 ?ns dep = Inr d"
    and poll: "WaitForDeploymentRollout deployments d (?h1 @ [written]) = (None, h')"
    by blast
  from WaitForDeploymentRollout_None [OF poll] w show ?thesis
    by (simp del: replicate_Suc) blast
qed

lemma CreateOrUpdateDaemonSet_None:
  assumes "CreateOrUpdateDaemonSet daemonSets ds h = (None, h')"
  shows "\<exists>written d k observed.
        (written = CreateCall (GetNamespace ds) ds
           \<and> createResp daemonSets (h @ [GetCall (GetNamespace ds) (GetName ds)])
                (GetNamespace ds) ds = Inr d
         \<or> written = UpdateCall (GetNamespace ds) ds
           \<and> updateResp daemonSets (h @ [GetCall (GetNamespace ds) (GetName ds)])
                (GetNamespace ds) ds = Inr d)
      \<and> k < ticks Second deploymentCreateTimeout
      \<and> h' = h @ [GetCall (GetNamespace ds) (GetName ds), written]
               @ replicate (Suc k) (GetCall (GetNamespace d) (GetName d))
      \<and> getResp daemonSets
           (h @ [GetCall (GetNamespace ds) (GetName ds), written]
              @ replicate k (GetCall (GetNamespace d) (GetName d)))
           (GetNamespace d) (GetName d) = Inr observed
      \<and> sint (Generation observed)
            \<le> sint (daemonSetStatus.ObservedGeneration (daemonSet.Status observed))
      \<and> UpdatedNumberScheduled (daemonSet.Status observed)
            = DesiredNumberScheduled (daemonSet.Status observed)
      \<and> NumberUnavailable (daemonSet.Status observed) = 0"
proof -
  let ?ns = "GetNamespace ds"
  let ?h1 = "h @ [GetCall ?ns (GetName ds)]"
  have "\<exists>written d.
      (written = CreateCall ?ns ds \<and> createResp daemonSets ?h1 ?ns ds = Inr d
        \<or> written = UpdateCall ?ns ds \<and> updateResp daemonSets ?h1 ?ns ds = Inr d)
      \<and> WaitForDaemonSetRollout daemonSets d (?h1 @ [written]) = (None, h')"
  proof (cases "getResp daemonSets h ?ns (GetName ds)")
    case (Inl err)
    with assms have nf: "IsNotFound (Some err)"
      unfolding CreateOrUpdateDaemonSet_cases by (auto split: if_splits)
    with Inl assms obtain d where cr: "createResp daemonSets ?h1 ?ns ds = Inr d"
      unfolding CreateOrUpdateDaemonSet_cases by (auto split: sum.splits)
    from Inl nf cr assms
    have "WaitForDaemonSetRollout daemonSets d (?h1 @ [CreateCall ?ns ds]) = (None, h')"
      unfolding CreateOrUpdateDaemonSet_cases
      by (cases "WaitForDaemonSetRollout daemonSets d (?h1 @ [CreateCall ?ns ds])")
        (simp add: Wrap_None)
    with cr show ?thesis by blast
  next
    case (Inr observed)
    with assms obtain d where up: "updateResp daemonSets ?h1 ?ns ds = Inr d"
      unfolding CreateOrUpdateDaemonSet_cases by (auto split: sum.splits)
    from Inr up assms
    have "WaitForDaemonSetRollout daemonSets d (?h1 @ [UpdateCall ?ns ds]) = (None, h')"
      unfolding CreateOrUpdateDaemonSet_cases
      by (cases "WaitForDaemonSetRollout daemonSets d (?h1 @ [UpdateCall ?ns ds])")
        (simp add: Wrap_None)
    with up show ?thesis by blast
  qed
  then obtain written d where
    w: "written = CreateCall ?ns ds \<and> createResp daemonSets ?h1 ?ns ds = Inr d
        \<or> written = UpdateCall ?ns ds \<and> updateResp daemonSets ?h1 ?ns ds = Inr d"
    and poll: "WaitForDaemonSetRollout daemonSets d (?h1 @ [written]) = (None, h')"
    by blast
  from WaitForDaemonSetRollout_None [OF poll] w show ?thesis
    by (simp del: replicate_Suc) blast
qed

lemma WaitForDeploymentRollout_never_ready:
  assumes "\<forall>v. \<exists>observed.
      getResp deployments v (GetNamespace d) (GetName d) = Inr observed
    \<and> \<not> (sint (Generation observed)
             \<le> sint (deploymentStatus.ObservedGeneration (deployment.Status observed))
           \<and> UpdatedReplicas (deployment.Status observed) = Replicas (deployment.Status observed)
           \<and> UnavailableReplicas (deployment.Status observed) = 0)"
  shows "fst (WaitForDeploymentRollout deployments d h) = Some ErrWaitTimeout"
proof -
  have "fst (WaitForDeploymentRollout_condition deployments d v) = (False, None)" for v
  proof -
    from assms obtain observed where
      "getResp deployments v (GetNamespace d) (GetName d) = Inr observed"
      "\<not> (sint (Generation observed)
             \<le> sint (deploymentStatus.ObservedGeneration (deployment.Status observed))
           \<and> UpdatedReplicas (deployment.Status observed) = Replicas (deployment.Status observed)
           \<and> UnavailableReplicas (deployment.Status observed) = 0)"
      by blast
    then show ?thesis
      by (simp add: WaitForDeploymentRollout_condition_def clientGet_def)
  qed
  then show ?thesis
    by (simp add: WaitForDeploymentRollout_def Poll_def WaitFor_all_pending)
qed

lemma WaitForDaemonSetRollout_never_ready:
  assumes "\<forall>v. \<exists>observed.
      getResp daemonSets v (GetNamespace d) (GetName d) = Inr observed
    \<and> \<not> (sint (Generation observed)
             \<le> sint (daemonSetStatus.ObservedGeneration (daemonSet.Status observed))
           \<and> UpdatedNumberScheduled (daemonSet.Status observed)
               = DesiredNumberScheduled (daemonSet.Status observed)
           \<and> NumberUnavailable (daemonSet.Status observed) = 0)"
  shows "fst (WaitForDaemonSetRollout daemonSets d h) = Some ErrWaitTimeout"
proof -
  have "fst (WaitForDaemonSetRollout_condition daemonSets d v) = (False, None)" for v
  proof -
    from assms obtain observed where
      "getResp daemonSets v (GetNamespace d) (GetName d) = Inr observed"
      "\<not> (sint (Generation observed)
             \<le> sint (daemonSetStatus.ObservedGeneration (daemonSet.Status observed))
           \<and> UpdatedNumberScheduled (daemonSet.Status observed)
               = DesiredNumberScheduled (daemonSet.Status observed)
           \<and> NumberUnavailable (daemonSet.Status observed) = 0)"
      by blast
    then show ?thesis
      by (simp add: WaitForDaemonSetRollout_condition_def clientGet_def)
  qed
  then show ?thesis
    by (simp add: WaitForDaemonSetRollout_def Poll_def WaitFor_all_pending)
qed

text \<open>
  C10. \<^verbatim>\<open>CreateOrUpdateDeployment\<close> and \<^verbatim>\<open>CreateOrUpdateDaemonSet\<close> wait for the
  rollout themselves. When one of them returns \<^verbatim>\<open>nil\<close>, its calls were the Get, a
  Create or Update of the desired object that the store accepted, and then between one
  and 300 Gets of the rollout poll on the object the store returned, the last of which
  showed the rollout complete. When the write succeeds, the result is the error of that
  rollout poll, wrapped with the operation, so a poll that fails or times out makes the
  reconcile fail: when no Get of the poll ever shows the rollout complete, the reconcile
  returns the wrapped timeout error. The rollout poll is \<^verbatim>\<open>wait.Poll\<close> with the
  interval of one second and the deadline of five minutes.
\<close>

theorem workload_reconcile_waits_for_rollout:
  fixes deployments :: "'a deployment_scheme server"
    and daemonSets :: "'b daemonSet_scheme server"
  shows
   "(CreateOrUpdateDeployment deployments dep h = (None, h') \<longrightarrow>
      (\<exists>written d k observed.
          (written = CreateCall (GetNamespace dep) dep
             \<and> createResp deployments (h @ [GetCall (GetNamespace dep) (GetName dep)])
                  (GetNamespace dep) dep = Inr d
           \<or> written = UpdateCall (GetNamespace dep) dep
             \<and> updateResp deployments (h @ [GetCall (GetNamespace dep) (GetName dep)])
                  (GetNamespace dep) dep = Inr d)
        \<and> k < ticks Second deploymentCreateTimeout
        \<and> h' = h @ [GetCall (GetNamespace dep) (GetName dep), written]
                 @ replicate (Suc k) (GetCall (GetNamespace d) (GetName d))
        \<and> getResp deployments
             (h @ [GetCall (GetNamespace dep) (GetName dep), written]
                @ replicate k (GetCall (GetNamespace d) (GetName d)))
             (GetNamespace d) (GetName d) = Inr observed
        \<and> sint (Generation observed)
              \<le> sint (deploymentStatus.ObservedGeneration (deployment.Status observed))
        \<and> UpdatedReplicas (deployment.Status observed) = Replicas (deployment.Status observed)
        \<and> UnavailableReplicas (deployment.Status observed) = 0))
  \<and> (getResp deployments h (GetNamespace dep) (GetName dep) = Inl e \<and> IsNotFound (Some e)
        \<and> createResp deployments (h @ [GetCall (GetNamespace dep) (GetName dep)])
             (GetNamespace dep) dep = Inr d \<longrightarrow>
      CreateOrUpdateDeployment deployments dep h =
        (Wrap (fst (WaitForDeploymentRollout deployments d
                 (h @ [GetCall (GetNamespace dep) (GetName dep),
                       CreateCall (GetNamespace dep) dep])))
           ''creating deployment object failed'',
         snd (WaitForDeploymentRollout deployments d
                 (h @ [GetCall (GetNamespace dep) (GetName dep),
                       CreateCall (GetNamespace dep) dep]))))
  \<and> (getResp deployments h (GetNamespace dep) (GetName dep) = Inr present
        \<and> updateResp deployments (h @ [GetCall (GetNamespace dep) (GetName dep)])
             (GetNamespace dep) dep = Inr d \<longrightarrow>
      CreateOrUpdateDeployment deployments dep h =
        (Wrap (fst (WaitForDeploymentRollout deployments d
                 (h @ [GetCall (GetNamespace dep) (GetName dep),
                       UpdateCall (GetNamespace dep) dep])))
           ''updating deployment object failed'',
         snd (WaitForDeploymentRollout deployments d
                 (h @ [GetCall (GetNamespace dep) (GetName dep),
                       UpdateCall (GetNamespace dep) dep]))))
  \<and> (CreateOrUpdateDaemonSet daemonSets ds hs = (None, hs') \<longrightarrow>
      (\<exists>written d k observed.
          (written = CreateCall (GetNamespace ds) ds
             \<and> createResp daemonSets (hs @ [GetCall (GetNamespace ds) (GetName ds)])
                  (GetNamespace ds) ds = Inr d
           \<or> written = UpdateCall (GetNamespace ds) ds
             \<and> updateResp daemonSets (hs @ [GetCall (GetNamespace ds) (GetName ds)])
                  (GetNamespace ds) ds = Inr d)
        \<and> k < ticks Second deploymentCreateTimeout
        \<and> hs' = hs @ [GetCall (GetNamespace ds) (GetName ds), written]
                 @ replicate (Suc k) (GetCall (GetNamespace d) (GetName d))
        \<and> getResp daemonSets
             (hs @ [GetCall (GetNamespace ds) (GetName ds), written]
                @ replicate k (GetCall (GetNamespace d) (GetName d)))
             (GetNamespace d) (GetName d) = Inr observed
        \<and> sint (Generation observed)
              \<le> sint (daemonSetStatus.ObservedGeneration (daemonSet.Status observed))
        \<and> UpdatedNumberScheduled (daemonSet.Status observed)
              = DesiredNumberScheduled (daemonSet.Status observed)
        \<and> NumberUnavailable (daemonSet.Status observed) = 0))
  \<and> (getResp daemonSets hs (GetNamespace ds) (GetName ds) = Inl e \<and> IsNotFound (Some e)
        \<and> createResp daemonSets (hs @ [GetCall (GetNamespace ds) (GetName ds)])
             (GetNamespace ds) ds = Inr sd \<longrightarrow>
      CreateOrUpdateDaemonSet daemonSets ds hs =
        (Wrap (fst (WaitForDaemonSetRollout daemonSets sd
                 (hs @ [GetCall (GetNamespace ds) (GetName ds),
                        CreateCall (GetNamespace ds) ds])))
           ''creating DaemonSet object failed'',
         snd (WaitForDaemonSetRollout daemonSets sd
                 (hs @ [GetCall (GetNamespace ds) (GetName ds),
                        CreateCall (GetNamespace ds) ds]))))
  \<and> (getResp daemonSets hs (GetNamespace ds) (GetName ds) = Inr spresent
        \<and> updateResp daemonSets (hs @ [GetCall (GetNamespace ds) (GetName ds)])
             (GetNamespace ds) ds = Inr sd \<longrightarrow>
      CreateOrUpdateDaemonSet daemonSets ds hs =
        (Wrap (fst (WaitForDaemonSetRollout daemonSets sd
                 (hs @ [GetCall (GetNamespace ds) (GetName ds),
                        UpdateCall (GetNamespace ds) ds])))
           ''updating DaemonSet object failed'',
         snd (WaitForDaemonSetRollout daemonSets sd
                 (hs @ [GetCall (GetNamespace ds) (GetName ds),
                        UpdateCall (GetNamespace ds) ds]))))
  \<and> WaitForDeploymentRollout deployments d hw =
      Poll Second deploymentCreateTimeout (WaitForDeploymentRollout_condition deployments d) hw
  \<and> WaitForDaemonSetRollout daemonSets sd hv =
      Poll Second deploymentCreateTimeout (WaitForDaemonSetRollout_condition daemonSets sd) hv
  \<and> Second = 1000000000
  \<and> deploymentCreateTimeout = 300 * Second
  \<and> (getResp deployments h (GetNamespace dep) (GetName dep) = Inr present
        \<and> updateResp deployments (h @ [GetCall (GetNamespace dep) (GetName dep)])
             (GetNamespace dep) dep = Inr d
        \<and> (\<forall>v. \<exists>observed.
               getResp deployments v (GetNamespace d) (GetName d) = Inr observed
             \<and> \<not> (sint (Generation observed)
                      \<le> sint (deploymentStatus.ObservedGeneration (deployment.Status observed))
                    \<and> UpdatedReplicas (deployment.Status observed)
                        = Replicas (deployment.Status observed)
                    \<and> UnavailableReplicas (deployment.Status observed) = 0)) \<longrightarrow>
      fst (CreateOrUpdateDeployment deployments dep h) =
        Some (WithMessage ErrWaitTimeout ''updating deployment object failed''))
  \<and> (getResp daemonSets hs (GetNamespace ds) (GetName ds) = Inr spresent
        \<and> updateResp daemonSets (hs @ [GetCall (GetNamespace ds) (GetName ds)])
             (GetNamespace ds) ds = Inr sd
        \<and> (\<forall>v. \<exists>observed.
               getResp daemonSets v (GetNamespace sd) (GetName sd) = Inr observed
             \<and> \<not> (sint (Generation observed)
                      \<le> sint (daemonSetStatus.ObservedGeneration (daemonSet.Status observed))
                    \<and> UpdatedNumberScheduled (daemonSet.Status observed)
                        = DesiredNumberScheduled (daemonSet.Status observed)
                    \<and> NumberUnavailable (daemonSet.Status observed) = 0)) \<longrightarrow>
      fst (CreateOrUpdateDaemonSet daemonSets ds hs) =
        Some (WithMessage ErrWaitTimeout ''updating DaemonSet object failed''))"
proof (intro conjI impI)
  assume "CreateOrUpdateDeployment deployments dep h = (None, h')"
  then show "\<exists>written d k observed.
          (written = CreateCall (GetNamespace dep) dep
             \<and> createResp deployments (h @ [GetCall (GetNamespace dep) (GetName dep)])
                  (GetNamespace dep) dep = Inr d
           \<or> written = UpdateCall (GetNamespace dep) dep
             \<and> updateResp deployments (h @ [GetCall (GetNamespace dep) (GetName dep)])
                  (GetNamespace dep) dep = Inr d)
        \<and> k < ticks Second deploymentCreateTimeout
        \<and> h' = h @ [GetCall (GetNamespace dep) (GetName dep), written]
                 @ replicate (Suc k) (GetCall (GetNamespace d) (GetName d))
        \<and> getResp deployments
             (h @ [GetCall (GetNamespace dep) (GetName dep), written]
                @ replicate k (GetCall (GetNamespace d) (GetName d)))
             (GetNamespace d) (GetName d) = Inr observed
        \<and> sint (Generation observed)
              \<le> sint (deploymentStatus.ObservedGeneration (deployment.Status observed))
        \<and> UpdatedReplicas (deployment.Status observed) = Replicas (deployment.Status observed)
        \<and> UnavailableReplicas (deployment.Status observed) = 0"
    by (rule CreateOrUpdateDeployment_None)
next
  assume "CreateOrUpdateDaemonSet daemonSets ds hs = (None, hs')"
  then show "\<exists>written d k observed.
          (written = CreateCall (GetNamespace ds) ds
             \<and> createResp daemonSets (hs @ [GetCall (GetNamespace ds) (GetName ds)])
                  (GetNamespace ds) ds = Inr d
           \<or> written = UpdateCall (GetNamespace ds) ds
             \<and> updateResp daemonSets (hs @ [GetCall (GetNamespace ds) (GetName ds)])
                  (GetNamespace ds) ds = Inr d)
        \<and> k < ticks Second deploymentCreateTimeout
        \<and> hs' = hs @ [GetCall (GetNamespace ds) (GetName ds), written]
                 @ replicate (Suc k) (GetCall (GetNamespace d) (GetName d))
        \<and> getResp daemonSets
             (hs @ [GetCall (GetNamespace ds) (GetName ds), written]
                @ replicate k (GetCall (GetNamespace d) (GetName d)))
             (GetNamespace d) (GetName d) = Inr observed
        \<and> sint (Generation observed)
              \<le> sint (daemonSetStatus.ObservedGeneration (daemonSet.Status observed))
        \<and> UpdatedNumberScheduled (daemonSet.Status observed)
              = DesiredNumberScheduled (daemonSet.Status observed)
        \<and> NumberUnavailable (daemonSet.Status observed) = 0"
    by (rule CreateOrUpdateDaemonSet_None)
next
  assume a: "getResp deployments h (GetNamespace dep) (GetName dep) = Inr present
        \<and> updateResp deployments (h @ [GetCall (GetNamespace dep) (GetName dep)])
             (GetNamespace dep) dep = Inr d
        \<and> (\<forall>v. \<exists>observed.
               getResp deployments v (GetNamespace d) (GetName d) = Inr observed
             \<and> \<not> (sint (Generation observed)
                      \<le> sint (deploymentStatus.ObservedGeneration (deployment.Status observed))
                    \<and> UpdatedReplicas (deployment.Status observed)
                        = Replicas (deployment.Status observed)
                    \<and> UnavailableReplicas (deployment.Status observed) = 0))"
  then have "fst (WaitForDeploymentRollout deployments d
      (h @ [GetCall (GetNamespace dep) (GetName dep), UpdateCall (GetNamespace dep) dep])) =
      Some ErrWaitTimeout"
    by (intro WaitForDeploymentRollout_never_ready) blast
  with a show "fst (CreateOrUpdateDeployment deployments dep h) =
      Some (WithMessage ErrWaitTimeout ''updating deployment object failed'')"
    by (simp add: CreateOrUpdateDeployment_cases)
next
  assume a: "getResp daemonSets hs (GetNamespace ds) (GetName ds) = Inr spresent
        \<and> updateResp daemonSets (hs @ [GetCall (GetNamespace ds) (GetName ds)])
             (GetNamespace ds) ds = Inr sd
        \<and> (\<forall>v. \<exists>observed.
               getResp daemonSets v (GetNamespace sd) (GetName sd) = Inr observed
             \<and> \<not> (sint (Generation observed)
                      \<le> sint (daemonSetStatus.ObservedGeneration (daemonSet.Status observed))
                    \<and> UpdatedNumberScheduled (daemonSet.Status observed)
                        = DesiredNumberScheduled (daemonSet.Status observed)
                    \<and> NumberUnavailable (daemonSet.Status observed) = 0))"
  then have "fst (WaitForDaemonSetRollout daemonSets sd
      (hs @ [GetCall (GetNamespace ds) (GetName ds), UpdateCall (GetNamespace ds) ds])) =
      Some ErrWaitTimeout"
    by (intro WaitForDaemonSetRollout_never_ready) blast
  with a show "fst (CreateOrUpdateDaemonSet daemonSets ds hs) =
      Some (WithMessage ErrWaitTimeout ''updating DaemonSet object failed'')"
    by (simp add: CreateOrUpdateDaemonSet_cases)
qed (simp_all add: CreateOrUpdateDeployment_cases CreateOrUpdateDaemonSet_cases
       WaitForDeploymentRollout_def WaitForDaemonSetRollout_def Second_def Minute_def
       deploymentCreateTimeout_def)

text \<open>
  Runs of both reconciles. A workload that is present and whose rollout completes on
  the second tick of the poll: the reconcile returns \<^verbatim>\<open>nil\<close> after the Get, the
  Update and two polling Gets, the last of which showed the completed rollout. A
  workload that is absent: the reconcile returns \<^verbatim>\<open>nil\<close> after the Get, the Create
  and one polling Get. A store whose Get fails during the poll: the reconcile returns
  that error wrapped. A store on which the rollout never completes: the reconcile
  returns the wrapped timeout.
\<close>

theorem workload_reconcile_waits_for_rollout_witness:
  "CreateOrUpdateDeployment reconcileServer (exampleDeployment 0 0 0) [] =
     (None,
      [GetCall ''monitoring'' ''web'', UpdateCall ''monitoring'' (exampleDeployment 0 0 0),
       GetCall ''monitoring'' ''web'', GetCall ''monitoring'' ''web''])
   \<and> getResp reconcileServer
        [GetCall ''monitoring'' ''web'', UpdateCall ''monitoring'' (exampleDeployment 0 0 0),
         GetCall ''monitoring'' ''web'']
        ''monitoring'' ''web'' = Inr (exampleDeployment 2 3 0)
   \<and> CreateOrUpdateDaemonSet daemonSetServer (rollingDaemonSet 0 0 0) [] =
     (None,
      [GetCall ''monitoring'' ''node-exporter'',
       UpdateCall ''monitoring'' (rollingDaemonSet 0 0 0),
       GetCall ''monitoring'' ''node-exporter'', GetCall ''monitoring'' ''node-exporter''])
   \<and> getResp daemonSetServer
        [GetCall ''monitoring'' ''node-exporter'',
         UpdateCall ''monitoring'' (rollingDaemonSet 0 0 0),
         GetCall ''monitoring'' ''node-exporter'']
        ''monitoring'' ''node-exporter'' = Inr (rollingDaemonSet 2 3 0)
   \<and> CreateOrUpdateDeployment createdDeployments (exampleDeployment 0 0 0) [] =
     (None,
      [GetCall ''monitoring'' ''web'', CreateCall ''monitoring'' (exampleDeployment 0 0 0),
       GetCall ''monitoring'' ''web''])
   \<and> CreateOrUpdateDaemonSet createdDaemonSets (rollingDaemonSet 0 0 0) [] =
     (None,
      [GetCall ''monitoring'' ''node-exporter'',
       CreateCall ''monitoring'' (rollingDaemonSet 0 0 0),
       GetCall ''monitoring'' ''node-exporter''])
   \<and> CreateOrUpdateDeployment
        (scriptServer (replay (Inl (ErrorString ''connection refused''))
           [Inr (exampleDeployment 1 2 1)]))
        (exampleDeployment 0 0 0) [] =
     (Some (WithMessage (ErrorString ''connection refused'') ''updating deployment object failed''),
      [GetCall ''monitoring'' ''web'', UpdateCall ''monitoring'' (exampleDeployment 0 0 0),
       GetCall ''monitoring'' ''web''])
   \<and> CreateOrUpdateDaemonSet flakyDaemonSets (rollingDaemonSet 0 0 0) [] =
     (Some (WithMessage (ErrorString ''connection refused'') ''updating DaemonSet object failed''),
      [GetCall ''monitoring'' ''node-exporter'',
       UpdateCall ''monitoring'' (rollingDaemonSet 0 0 0),
       GetCall ''monitoring'' ''node-exporter''])
   \<and> fst (CreateOrUpdateDeployment (holding (exampleDeployment 1 2 1))
          (exampleDeployment 0 0 0) []) =
     Some (WithMessage ErrWaitTimeout ''updating deployment object failed'')
   \<and> fst (CreateOrUpdateDaemonSet (holding (rollingDaemonSet 1 2 1))
          (rollingDaemonSet 0 0 0) []) =
     Some (WithMessage ErrWaitTimeout ''updating DaemonSet object failed'')
   \<and> (\<exists>k (observed :: deployment). k < ticks Second deploymentCreateTimeout
        \<and> UpdatedReplicas (deployment.Status observed) = Replicas (deployment.Status observed)
        \<and> UnavailableReplicas (deployment.Status observed) = 0)
   \<and> (\<exists>k (observed :: daemonSet). k < ticks Second deploymentCreateTimeout
        \<and> UpdatedNumberScheduled (daemonSet.Status observed)
            = DesiredNumberScheduled (daemonSet.Status observed)
        \<and> NumberUnavailable (daemonSet.Status observed) = 0)"
proof -
  let ?dep = "exampleDeployment 0 0 0"
  let ?ds = "rollingDaemonSet 0 0 0"
  let ?get = "GetCall ''monitoring'' ''web'' :: deployment call"
  let ?gets = "GetCall ''monitoring'' ''node-exporter'' :: daemonSet call"
  let ?flaky = "scriptServer (replay (Inl (ErrorString ''connection refused''))
           [Inr (exampleDeployment 1 2 1)]) :: deployment server"
  note T = workload_reconcile_waits_for_rollout
  note dep_success = T [THEN conjunct1, THEN mp]
  note dep_create = T [THEN conjunct2, THEN conjunct1, THEN mp]
  note dep_update = T [THEN conjunct2, THEN conjunct2, THEN conjunct1, THEN mp]
  note ds_success = T [THEN conjunct2, THEN conjunct2, THEN conjunct2, THEN conjunct1, THEN mp]
  note ds_create = T [THEN conjunct2, THEN conjunct2, THEN conjunct2, THEN conjunct2,
      THEN conjunct1, THEN mp]
  note ds_update = T [THEN conjunct2, THEN conjunct2, THEN conjunct2, THEN conjunct2,
      THEN conjunct2, THEN conjunct1, THEN mp]
  note dep_timeout = T [THEN conjunct2, THEN conjunct2, THEN conjunct2, THEN conjunct2,
      THEN conjunct2, THEN conjunct2, THEN conjunct2, THEN conjunct2, THEN conjunct2,
      THEN conjunct2, THEN conjunct1, THEN mp]
  note ds_timeout = T [THEN conjunct2, THEN conjunct2, THEN conjunct2, THEN conjunct2,
      THEN conjunct2, THEN conjunct2, THEN conjunct2, THEN conjunct2, THEN conjunct2,
      THEN conjunct2, THEN conjunct2, THEN mp]
  have names: "GetNamespace ?dep = ''monitoring''" "GetName ?dep = ''web''"
    "GetNamespace ?ds = ''monitoring''" "GetName ?ds = ''node-exporter''"
    by (simp_all add: GetNamespace_def GetName_def exampleDeployment_def rollingDaemonSet_def)
  have nf: "IsNotFound (Some notFound)"
    by (simp add: IsNotFound_def notFound_def)

  have p1: "WaitForDeploymentRollout reconcileServer ?dep [?get, UpdateCall ''monitoring'' ?dep] =
      (None, [?get, UpdateCall ''monitoring'' ?dep, ?get, ?get])"
    by (simp add: reconcileServer_def scriptServer_def replay_def WaitForDeploymentRollout_def
          Poll_def ticks_rollout WaitFor_pos WaitForDeploymentRollout_condition_def
          clientGet_def GetNamespace_def GetName_def exampleDeployment_def)
  have g1: "getResp reconcileServer [] (GetNamespace ?dep) (GetName ?dep) =
        Inr (exampleDeployment 1 2 1)
      \<and> updateResp reconcileServer ([] @ [GetCall (GetNamespace ?dep) (GetName ?dep)])
           (GetNamespace ?dep) ?dep = Inr ?dep"
    by (simp add: reconcileServer_def scriptServer_def replay_def)
  have run1: "CreateOrUpdateDeployment reconcileServer ?dep [] =
      (None, [?get, UpdateCall ''monitoring'' ?dep, ?get, ?get])"
    using dep_update [OF g1] by (simp add: names p1)
  have seen1: "getResp reconcileServer [?get, UpdateCall ''monitoring'' ?dep, ?get]
      ''monitoring'' ''web'' = Inr (exampleDeployment 2 3 0)"
    by (simp add: reconcileServer_def scriptServer_def replay_def)
  have ex1: "\<exists>k (observed :: deployment). k < ticks Second deploymentCreateTimeout
        \<and> UpdatedReplicas (deployment.Status observed) = Replicas (deployment.Status observed)
        \<and> UnavailableReplicas (deployment.Status observed) = 0"
    using dep_success [OF run1] by blast

  have p2: "WaitForDaemonSetRollout daemonSetServer ?ds [?gets, UpdateCall ''monitoring'' ?ds] =
      (None, [?gets, UpdateCall ''monitoring'' ?ds, ?gets, ?gets])"
    by (simp add: daemonSetServer_def scriptServer_def replay_def WaitForDaemonSetRollout_def
          Poll_def ticks_rollout WaitFor_pos WaitForDaemonSetRollout_condition_def
          clientGet_def GetNamespace_def GetName_def rollingDaemonSet_def)
  have g2: "getResp daemonSetServer [] (GetNamespace ?ds) (GetName ?ds) =
        Inr (rollingDaemonSet 1 2 1)
      \<and> updateResp daemonSetServer ([] @ [GetCall (GetNamespace ?ds) (GetName ?ds)])
           (GetNamespace ?ds) ?ds = Inr ?ds"
    by (simp add: daemonSetServer_def scriptServer_def replay_def)
  have run2: "CreateOrUpdateDaemonSet daemonSetServer ?ds [] =
      (None, [?gets, UpdateCall ''monitoring'' ?ds, ?gets, ?gets])"
    using ds_update [OF g2] by (simp add: names p2)
  have seen2: "getResp daemonSetServer [?gets, UpdateCall ''monitoring'' ?ds, ?gets]
      ''monitoring'' ''node-exporter'' = Inr (rollingDaemonSet 2 3 0)"
    by (simp add: daemonSetServer_def scriptServer_def replay_def)
  have ex2: "\<exists>k (observed :: daemonSet). k < ticks Second deploymentCreateTimeout
        \<and> UpdatedNumberScheduled (daemonSet.Status observed)
            = DesiredNumberScheduled (daemonSet.Status observed)
        \<and> NumberUnavailable (daemonSet.Status observed) = 0"
    using ds_success [OF run2] by blast

  have p3: "WaitForDeploymentRollout createdDeployments ?dep [?get, CreateCall ''monitoring'' ?dep] =
      (None, [?get, CreateCall ''monitoring'' ?dep, ?get])"
    by (simp add: createdDeployments_def scriptServer_def replay_def WaitForDeploymentRollout_def
          Poll_def ticks_rollout WaitFor_pos WaitForDeploymentRollout_condition_def
          clientGet_def GetNamespace_def GetName_def exampleDeployment_def)
  have g3: "getResp createdDeployments [] (GetNamespace ?dep) (GetName ?dep) = Inl notFound
      \<and> IsNotFound (Some notFound)
      \<and> createResp createdDeployments ([] @ [GetCall (GetNamespace ?dep) (GetName ?dep)])
           (GetNamespace ?dep) ?dep = Inr ?dep"
    by (simp add: createdDeployments_def scriptServer_def replay_def nf)
  have run3: "CreateOrUpdateDeployment createdDeployments ?dep [] =
      (None, [?get, CreateCall ''monitoring'' ?dep, ?get])"
    using dep_create [OF g3] by (simp add: names p3)

  have p4: "WaitForDaemonSetRollout createdDaemonSets ?ds [?gets, CreateCall ''monitoring'' ?ds] =
      (None, [?gets, CreateCall ''monitoring'' ?ds, ?gets])"
    by (simp add: createdDaemonSets_def scriptServer_def replay_def WaitForDaemonSetRollout_def
          Poll_def ticks_rollout WaitFor_pos WaitForDaemonSetRollout_condition_def
          clientGet_def GetNamespace_def GetName_def rollingDaemonSet_def)
  have g4: "getResp createdDaemonSets [] (GetNamespace ?ds) (GetName ?ds) = Inl notFound
      \<and> IsNotFound (Some notFound)
      \<and> createResp createdDaemonSets ([] @ [GetCall (GetNamespace ?ds) (GetName ?ds)])
           (GetNamespace ?ds) ?ds = Inr ?ds"
    by (simp add: createdDaemonSets_def scriptServer_def replay_def nf)
  have run4: "CreateOrUpdateDaemonSet createdDaemonSets ?ds [] =
      (None, [?gets, CreateCall ''monitoring'' ?ds, ?gets])"
    using ds_create [OF g4] by (simp add: names p4)

  have p5: "WaitForDeploymentRollout ?flaky ?dep [?get, UpdateCall ''monitoring'' ?dep] =
      (Some (ErrorString ''connection refused''), [?get, UpdateCall ''monitoring'' ?dep, ?get])"
    by (simp add: scriptServer_def replay_def WaitForDeploymentRollout_def Poll_def
          ticks_rollout WaitFor_pos WaitForDeploymentRollout_condition_def clientGet_def
          GetNamespace_def GetName_def exampleDeployment_def)
  have g5: "getResp ?flaky [] (GetNamespace ?dep) (GetName ?dep) = Inr (exampleDeployment 1 2 1)
      \<and> updateResp ?flaky ([] @ [GetCall (GetNamespace ?dep) (GetName ?dep)])
           (GetNamespace ?dep) ?dep = Inr ?dep"
    by (simp add: scriptServer_def replay_def)
  have run5: "CreateOrUpdateDeployment ?flaky ?dep [] =
      (Some (WithMessage (ErrorString ''connection refused'') ''updating deployment object failed''),
       [?get, UpdateCall ''monitoring'' ?dep, ?get])"
    using dep_update [OF g5] by (simp add: names p5)

  have p6: "WaitForDaemonSetRollout flakyDaemonSets ?ds [?gets, UpdateCall ''monitoring'' ?ds] =
      (Some (ErrorString ''connection refused''), [?gets, UpdateCall ''monitoring'' ?ds, ?gets])"
    by (simp add: flakyDaemonSets_def scriptServer_def replay_def WaitForDaemonSetRollout_def
          Poll_def ticks_rollout WaitFor_pos WaitForDaemonSetRollout_condition_def clientGet_def
          GetNamespace_def GetName_def rollingDaemonSet_def)
  have g6: "getResp flakyDaemonSets [] (GetNamespace ?ds) (GetName ?ds) =
        Inr (rollingDaemonSet 1 2 1)
      \<and> updateResp flakyDaemonSets ([] @ [GetCall (GetNamespace ?ds) (GetName ?ds)])
           (GetNamespace ?ds) ?ds = Inr ?ds"
    by (simp add: flakyDaemonSets_def scriptServer_def replay_def)
  have run6: "CreateOrUpdateDaemonSet flakyDaemonSets ?ds [] =
      (Some (WithMessage (ErrorString ''connection refused'') ''updating DaemonSet object failed''),
       [?gets, UpdateCall ''monitoring'' ?ds, ?gets])"
    using ds_update [OF g6] by (simp add: names p6)

  have g7: "getResp (holding (exampleDeployment 1 2 1)) [] (GetNamespace ?dep) (GetName ?dep) =
        Inr (exampleDeployment 1 2 1)
      \<and> updateResp (holding (exampleDeployment 1 2 1))
           ([] @ [GetCall (GetNamespace ?dep) (GetName ?dep)]) (GetNamespace ?dep) ?dep = Inr ?dep
      \<and> (\<forall>v. \<exists>observed.
             getResp (holding (exampleDeployment 1 2 1)) v (GetNamespace ?dep) (GetName ?dep)
               = Inr observed
           \<and> \<not> (sint (Generation observed)
                    \<le> sint (deploymentStatus.ObservedGeneration (deployment.Status observed))
                  \<and> UpdatedReplicas (deployment.Status observed)
                      = Replicas (deployment.Status observed)
                  \<and> UnavailableReplicas (deployment.Status observed) = 0))"
    by (simp add: holding_def scriptServer_def exampleDeployment_def)
  have run7: "fst (CreateOrUpdateDeployment (holding (exampleDeployment 1 2 1)) ?dep []) =
      Some (WithMessage ErrWaitTimeout ''updating deployment object failed'')"
    by (rule dep_timeout [OF g7])

  have g8: "getResp (holding (rollingDaemonSet 1 2 1)) [] (GetNamespace ?ds) (GetName ?ds) =
        Inr (rollingDaemonSet 1 2 1)
      \<and> updateResp (holding (rollingDaemonSet 1 2 1))
           ([] @ [GetCall (GetNamespace ?ds) (GetName ?ds)]) (GetNamespace ?ds) ?ds = Inr ?ds
      \<and> (\<forall>v. \<exists>observed.
             getResp (holding (rollingDaemonSet 1 2 1)) v (GetNamespace ?ds) (GetName ?ds)
               = Inr observed
           \<and> \<not> (sint (Generation observed)
                    \<le> sint (daemonSetStatus.ObservedGeneration (daemonSet.Status observed))
                  \<and> UpdatedNumberScheduled (daemonSet.Status observed)
                      = DesiredNumberScheduled (daemonSet.Status observed)
                  \<and> NumberUnavailable (daemonSet.Status observed) = 0))"
    by (simp add: holding_def scriptServer_def rollingDaemonSet_def)
  have run8: "fst (CreateOrUpdateDaemonSet (holding (rollingDaemonSet 1 2 1)) ?ds []) =
      Some (WithMessage ErrWaitTimeout ''updating DaemonSet object failed'')"
    by (rule ds_timeout [OF g8])

  from run1 seen1 run2 seen2 run3 run4 run5 run6 run7 run8 ex1 ex2 show ?thesis
    by (intro conjI)
qed

section \<open>Deleting an identity that is absent\<close>

lemma WaitFor_pending_trace:
  assumes "\<And>v. fn v = ((False, None), v @ [c])"
  shows "WaitFor n fn w = (Some ErrWaitTimeout, w @ replicate n c)"
proof (induction n arbitrary: w)
  case 0
  then show ?case by simp
next
  case (Suc n)
  have "WaitFor (Suc n) fn w = WaitFor n fn (w @ [c])"
    by (simp add: assms)
  also have "\<dots> = (Some ErrWaitTimeout, (w @ [c]) @ replicate n c)"
    by (rule Suc.IH)
  finally show ?case by (simp add: replicate_append_same)
qed

text \<open>
  C8, as the code has it. When the store answers the Delete with not-found,
  \<^verbatim>\<open>DeleteDeployment\<close>, \<^verbatim>\<open>DeleteDaemonSet\<close> and \<^verbatim>\<open>DeleteServiceMonitor\<close> return
  \<^verbatim>\<open>nil\<close> after that single call. \<^verbatim>\<open>DeletePrometheus\<close> does not surface the
  not-found either, but goes on to the poll of the pods, and its result is the result
  of that poll, wrapped: \<^verbatim>\<open>nil\<close> when a listing comes back empty, as it does at once
  when the first listing is empty.
\<close>

theorem delete_absent_is_success:
  fixes deployments :: "'a objectMeta_scheme server"
    and daemonSets :: "'b objectMeta_scheme server"
    and sclient :: "'c server"
    and pclient :: "'d objectMeta_scheme server"
    and pods :: "'p server"
    and d :: "'e objectMeta_scheme"
    and ds :: "'f objectMeta_scheme"
  shows
   "(IsNotFound (deleteResp deployments h (GetNamespace d) (GetName d)
        (Some \<lparr>PropagationPolicy = Some DeletePropagationForeground, OrphanDependents = None\<rparr>))
      \<longrightarrow> DeleteDeployment deployments d h =
            (None, h @ [DeleteCall (GetNamespace d) (GetName d)
               (Some \<lparr>PropagationPolicy = Some DeletePropagationForeground,
                       OrphanDependents = None\<rparr>)]))
  \<and> (IsNotFound (deleteResp daemonSets hs (GetNamespace ds) (GetName ds)
        (Some \<lparr>PropagationPolicy = None, OrphanDependents = Some False\<rparr>))
      \<longrightarrow> DeleteDaemonSet daemonSets ds hs =
            (None, hs @ [DeleteCall (GetNamespace ds) (GetName ds)
               (Some \<lparr>PropagationPolicy = None, OrphanDependents = Some False\<rparr>)]))
  \<and> (IsNotFound (deleteResp sclient hm namespace name None)
      \<longrightarrow> DeleteServiceMonitor sclient namespace name hm =
            (None, hm @ [DeleteCall namespace name None]))
  \<and> (IsNotFound (deleteResp pclient hp (GetNamespace p) (GetName p) None)
      \<longrightarrow> DeletePrometheus pclient pods ListOptions p (hp, hpods) =
            (Wrap (fst (Poll (Second * 10) (Minute * 10)
                          (DeletePrometheus_condition pods ListOptions p) hpods))
               ''waiting for Prometheus Pods to be gone failed'',
             (hp @ [DeleteCall (GetNamespace p) (GetName p) None],
              snd (Poll (Second * 10) (Minute * 10)
                     (DeletePrometheus_condition pods ListOptions p) hpods))))
  \<and> (IsNotFound (deleteResp pclient hp (GetNamespace p) (GetName p) None)
        \<and> listResp pods hpods (GetNamespace p) (ListOptions (GetName p)) = Inr []
      \<longrightarrow> DeletePrometheus pclient pods ListOptions p (hp, hpods) =
            (None,
             (hp @ [DeleteCall (GetNamespace p) (GetName p) None],
              hpods @ [ListCall (GetNamespace p) (ListOptions (GetName p))])))"
proof (intro conjI impI)
  assume "IsNotFound (deleteResp deployments h (GetNamespace d) (GetName d)
        (Some \<lparr>PropagationPolicy = Some DeletePropagationForeground, OrphanDependents = None\<rparr>))"
  then show "DeleteDeployment deployments d h =
      (None, h @ [DeleteCall (GetNamespace d) (GetName d)
         (Some \<lparr>PropagationPolicy = Some DeletePropagationForeground, OrphanDependents = None\<rparr>)])"
    by (simp add: DeleteDeployment_def clientDelete_def)
next
  assume "IsNotFound (deleteResp daemonSets hs (GetNamespace ds) (GetName ds)
        (Some \<lparr>PropagationPolicy = None, OrphanDependents = Some False\<rparr>))"
  then show "DeleteDaemonSet daemonSets ds hs =
      (None, hs @ [DeleteCall (GetNamespace ds) (GetName ds)
         (Some \<lparr>PropagationPolicy = None, OrphanDependents = Some False\<rparr>)])"
    by (simp add: DeleteDaemonSet_def clientDelete_def)
next
  assume "IsNotFound (deleteResp sclient hm namespace name None)"
  then show "DeleteServiceMonitor sclient namespace name hm =
      (None, hm @ [DeleteCall namespace name None])"
    by (simp add: DeleteServiceMonitor_def clientDelete_def)
next
  assume "IsNotFound (deleteResp pclient hp (GetNamespace p) (GetName p) None)"
  then show "DeletePrometheus pclient pods ListOptions p (hp, hpods) =
      (Wrap (fst (Poll (Second * 10) (Minute * 10)
                    (DeletePrometheus_condition pods ListOptions p) hpods))
         ''waiting for Prometheus Pods to be gone failed'',
       (hp @ [DeleteCall (GetNamespace p) (GetName p) None],
        snd (Poll (Second * 10) (Minute * 10)
               (DeletePrometheus_condition pods ListOptions p) hpods)))"
    by (simp add: DeletePrometheus_def clientDelete_def split: prod.splits)
next
  assume a: "IsNotFound (deleteResp pclient hp (GetNamespace p) (GetName p) None)
        \<and> listResp pods hpods (GetNamespace p) (ListOptions (GetName p)) = Inr []"
  then have "DeletePrometheus_condition pods ListOptions p hpods =
      ((True, None), hpods @ [ListCall (GetNamespace p) (ListOptions (GetName p))])"
    by (simp add: DeletePrometheus_condition_def clientList_def)
  then have "Poll (Second * 10) (Minute * 10) (DeletePrometheus_condition pods ListOptions p) hpods =
      (None, hpods @ [ListCall (GetNamespace p) (ListOptions (GetName p))])"
    by (rule Poll_first_tick) simp
  with a show "DeletePrometheus pclient pods ListOptions p (hp, hpods) =
      (None,
       (hp @ [DeleteCall (GetNamespace p) (GetName p) None],
        hpods @ [ListCall (GetNamespace p) (ListOptions (GetName p))]))"
    by (simp add: DeletePrometheus_def clientDelete_def)
qed

text \<open>
  On the store that holds nothing, every delete is answered with not-found: the
  deployment delete returns \<^verbatim>\<open>nil\<close>, and so does the Prometheus delete once its
  first pod listing is empty.
\<close>

theorem delete_absent_is_success_witness:
  "IsNotFound (deleteResp (absentServer :: objectMeta server) [] ''monitoring'' ''web''
      (Some \<lparr>PropagationPolicy = Some DeletePropagationForeground, OrphanDependents = None\<rparr>))
   \<and> DeleteDeployment (absentServer :: objectMeta server) (exampleDeployment 2 3 0) [] =
       (None, [DeleteCall ''monitoring'' ''web''
          (Some \<lparr>PropagationPolicy = Some ''Foreground'', OrphanDependents = None\<rparr>)])
   \<and> DeletePrometheus (absentServer :: objectMeta server) (absentServer :: objectMeta server)
        exampleListOptions (examplePrometheus ''5'') ([], []) =
       (None,
        ([DeleteCall ''monitoring'' ''k8s'' None],
         [ListCall ''monitoring'' (exampleListOptions ''k8s'')]))"
proof -
  let ?d = "exampleDeployment 2 3 0"
  let ?p = "examplePrometheus ''5''"
  let ?srv = "absentServer :: objectMeta server"
  have nf: "IsNotFound (Some notFound)"
    by (simp add: IsNotFound_def notFound_def)
  have a: "IsNotFound (deleteResp ?srv [] (GetNamespace ?d) (GetName ?d)
      (Some \<lparr>PropagationPolicy = Some DeletePropagationForeground, OrphanDependents = None\<rparr>))"
    by (simp add: absentServer_def nf)
  have b: "IsNotFound (deleteResp ?srv [] (GetNamespace ?p) (GetName ?p) None)
      \<and> listResp ?srv [] (GetNamespace ?p) (exampleListOptions (GetName ?p)) = Inr []"
    by (simp add: absentServer_def nf)
  note inst = delete_absent_is_success
    [where deployments = ?srv and d = ?d and h = "[]" and pclient = ?srv and pods = ?srv
       and p = ?p and hp = "[]" and hpods = "[]" and ListOptions = exampleListOptions]
  have "DeleteDeployment ?srv ?d [] =
      (None, [] @ [DeleteCall (GetNamespace ?d) (GetName ?d)
         (Some \<lparr>PropagationPolicy = Some DeletePropagationForeground, OrphanDependents = None\<rparr>)])"
    by (rule inst [THEN conjunct1, THEN mp, OF a])
  moreover have "DeletePrometheus ?srv ?srv exampleListOptions ?p ([], []) =
      (None, ([] @ [DeleteCall (GetNamespace ?p) (GetName ?p) None],
              [] @ [ListCall (GetNamespace ?p) (exampleListOptions (GetName ?p))]))"
    by (rule inst [THEN conjunct2, THEN conjunct2, THEN conjunct2, THEN conjunct2, THEN mp, OF b])
  ultimately show ?thesis
    using a
    by (simp add: GetNamespace_def GetName_def exampleDeployment_def examplePrometheus_def
          DeletePropagationForeground_def)
qed

text \<open>
  The specification as written fails for the Prometheus kind: the object is absent, one of its
  pods stays listed, and the delete returns the timeout of the pod poll after 60
  listings.
\<close>

theorem delete_absent_prometheus_counterexample:
  "deleteResp (absentServer :: objectMeta server) [] ''monitoring'' ''k8s'' None
     = Some (StatusError ''NotFound'' ''not found'')
   \<and> DeletePrometheus (absentServer :: objectMeta server) lingeringPods exampleListOptions
        (examplePrometheus ''5'') ([], []) =
       (Some (WithMessage ErrWaitTimeout ''waiting for Prometheus Pods to be gone failed''),
        ([DeleteCall ''monitoring'' ''k8s'' None],
         replicate 60 (ListCall ''monitoring'' (exampleListOptions ''k8s''))))"
proof -
  let ?p = "examplePrometheus ''5''"
  have names: "GetNamespace ?p = ''monitoring''" "GetName ?p = ''k8s''"
    by (simp_all add: GetNamespace_def GetName_def examplePrometheus_def)
  have "\<And>v. DeletePrometheus_condition lingeringPods exampleListOptions ?p v =
      ((False, None), v @ [ListCall ''monitoring'' (exampleListOptions ''k8s'')])"
    by (simp add: DeletePrometheus_condition_def clientList_def lingeringPods_def
          listServer_def names)
  then have "Poll (Second * 10) (Minute * 10)
      (DeletePrometheus_condition lingeringPods exampleListOptions ?p) [] =
      (Some ErrWaitTimeout, [] @ replicate 60 (ListCall ''monitoring'' (exampleListOptions ''k8s'')))"
    unfolding Poll_def ticks_pods by (rule WaitFor_pending_trace)
  then show ?thesis
    by (simp add: DeletePrometheus_def clientDelete_def absentServer_def notFound_def names
          IsNotFound_def StatusReasonNotFound_def)
qed

section \<open>Reconciling an identity that is present\<close>

lemma WaitFor_trace:
  assumes step: "\<And>v. snd (fn v) = v @ [c]"
  shows "\<exists>k\<le>n. snd (WaitFor n fn w) = w @ replicate k c"
proof (induction n arbitrary: w)
  case 0
  then show ?case by simp
next
  case (Suc n)
  obtain ok err w1 where fw: "fn w = ((ok, err), w1)"
    by (metis surj_pair)
  have w1: "w1 = w @ [c]"
    using step [of w] fw by simp
  show ?case
  proof (cases "err \<noteq> None \<or> ok")
    case True
    with fw w1 have "snd (WaitFor (Suc n) fn w) = w @ replicate (Suc 0) c" by auto
    then show ?thesis by (metis Suc_le_mono le0)
  next
    case False
    with fw have "WaitFor (Suc n) fn w = WaitFor n fn w1" by simp
    moreover from Suc.IH [of w1] obtain k where "k \<le> n" "snd (WaitFor n fn w1) = w1 @ replicate k c"
      by blast
    ultimately have "Suc k \<le> Suc n \<and> snd (WaitFor (Suc n) fn w) = w @ replicate (Suc k) c"
      by (simp add: w1 replicate_append_same)
    then show ?thesis by blast
  qed
qed

lemma CreateOrUpdatePrometheus_present:
  "getResp client h (GetNamespace obj) (GetName obj) = Inr observed \<Longrightarrow>
   snd (CreateOrUpdatePrometheus client obj h) =
     h @ [GetCall (GetNamespace obj) (GetName obj), UpdateCall (GetNamespace obj) obj]"
  by (simp add: CreateOrUpdatePrometheus_def clientGet_def clientUpdate_def)

lemma CreateOrUpdatePrometheusRule_present:
  "getResp client h (GetNamespace obj) (GetName obj) = Inr observed \<Longrightarrow>
   snd (CreateOrUpdatePrometheusRule client obj h) =
     h @ [GetCall (GetNamespace obj) (GetName obj), UpdateCall (GetNamespace obj) obj]"
  by (simp add: CreateOrUpdatePrometheusRule_def clientGet_def clientUpdate_def)

lemma CreateOrUpdateAlertmanager_present:
  "getResp client h (GetNamespace obj) (GetName obj) = Inr observed \<Longrightarrow>
   snd (CreateOrUpdateAlertmanager client obj h) =
     h @ [GetCall (GetNamespace obj) (GetName obj), UpdateCall (GetNamespace obj) obj]"
  by (simp add: CreateOrUpdateAlertmanager_def clientGet_def clientUpdate_def)

lemma CreateOrUpdateSecret_present:
  "getResp client h (GetNamespace obj) (GetName obj) = Inr observed \<Longrightarrow>
   snd (CreateOrUpdateSecret client obj h) =
     h @ [GetCall (GetNamespace obj) (GetName obj), UpdateCall (GetNamespace obj) obj]"
  by (simp add: CreateOrUpdateSecret_def clientGet_def clientUpdate_def)

lemma CreateOrUpdateConfigMap_present:
  "getResp client h (GetNamespace obj) (GetName obj) = Inr observed \<Longrightarrow>
   snd (CreateOrUpdateConfigMap client obj h) =
     h @ [GetCall (GetNamespace obj) (GetName obj), UpdateCall (GetNamespace obj) obj]"
  by (simp add: CreateOrUpdateConfigMap_def clientGet_def clientUpdate_def)

lemma CreateOrUpdateRoleBinding_present:
  "getResp client h (GetNamespace obj) (GetName obj) = Inr observed \<Longrightarrow>
   snd (CreateOrUpdateRoleBinding client obj h) =
     h @ [GetCall (GetNamespace obj) (GetName obj), UpdateCall (GetNamespace obj) obj]"
  by (simp add: CreateOrUpdateRoleBinding_def clientGet_def clientUpdate_def)

lemma CreateOrUpdateRole_present:
  "getResp client h (GetNamespace obj) (GetName obj) = Inr observed \<Longrightarrow>
   snd (CreateOrUpdateRole client obj h) =
     h @ [GetCall (GetNamespace obj) (GetName obj), UpdateCall (GetNamespace obj) obj]"
  by (simp add: CreateOrUpdateRole_def clientGet_def clientUpdate_def)

lemma CreateOrUpdateServiceMonitor_present:
  "getResp client h (GetNamespace obj) (GetName obj) = Inr observed \<Longrightarrow>
   snd (CreateOrUpdateServiceMonitor client obj h) =
     h @ [GetCall (GetNamespace obj) (GetName obj), UpdateCall (GetNamespace obj) obj]"
  by (simp add: CreateOrUpdateServiceMonitor_def clientGet_def clientUpdate_def)

lemma CreateOrUpdateIngress_present:
  "getResp client h (GetNamespace obj) (GetName obj) = Inr observed \<Longrightarrow>
   snd (CreateOrUpdateIngress client obj h) =
     h @ [GetCall (GetNamespace obj) (GetName obj), UpdateCall (GetNamespace obj) obj]"
  by (simp add: CreateOrUpdateIngress_def clientGet_def clientUpdate_def)

lemma CreateOrUpdateSecurityContextConstraints_present:
  "getResp client h NamespaceNone (GetName obj) = Inr observed \<Longrightarrow>
   snd (CreateOrUpdateSecurityContextConstraints client obj h) =
     h @ [GetCall NamespaceNone (GetName obj), UpdateCall NamespaceNone obj]"
  by (simp add: CreateOrUpdateSecurityContextConstraints_def clientGet_def clientUpdate_def)

lemma CreateOrUpdateClusterRole_present:
  "getResp client h NamespaceNone (GetName obj) = Inr observed \<Longrightarrow>
   snd (CreateOrUpdateClusterRole client obj h) =
     h @ [GetCall NamespaceNone (GetName obj), UpdateCall NamespaceNone obj]"
  by (simp add: CreateOrUpdateClusterRole_def clientGet_def clientUpdate_def)

lemma CreateOrUpdateClusterRoleBinding_present:
  "getResp client h NamespaceNone (GetName obj) = Inr observed \<Longrightarrow>
   snd (CreateOrUpdateClusterRoleBinding client obj h) =
     h @ [GetCall NamespaceNone (GetName obj), UpdateCall NamespaceNone obj]"
  by (simp add: CreateOrUpdateClusterRoleBinding_def clientGet_def clientUpdate_def)

lemma CreateOrUpdateEndpoints_present:
  "getResp client h (GetNamespace obj) (GetName obj) = Inr observed \<Longrightarrow>
   snd (CreateOrUpdateEndpoints client obj h) =
     h @ [GetCall (GetNamespace obj) (GetName obj),
          UpdateCall (GetNamespace obj) (obj\<lparr>ResourceVersion := ResourceVersion observed\<rparr>)]"
  by (simp add: CreateOrUpdateEndpoints_def clientGet_def clientUpdate_def Let_def)

lemma CreateOrUpdateService_present:
  "getResp sclient hs (GetNamespace svc) (GetName svc) = Inr s \<Longrightarrow>
   snd (CreateOrUpdateService sclient svc hs) =
     hs @ [GetCall (GetNamespace svc) (GetName svc),
           UpdateCall (GetNamespace svc)
             (if serviceSpec.Type (service.Spec svc) = ServiceTypeClusterIP
              then svc\<lparr>ResourceVersion := ResourceVersion s,
                       service.Spec := (service.Spec svc)\<lparr>ClusterIP := ClusterIP (service.Spec s)\<rparr>\<rparr>
              else svc\<lparr>ResourceVersion := ResourceVersion s\<rparr>)]"
  by (simp add: CreateOrUpdateService_def clientGet_def clientUpdate_def Let_def)

lemma WaitForDeploymentRollout_trace:
  "\<exists>k \<le> ticks Second deploymentCreateTimeout.
     snd (WaitForDeploymentRollout deployments d h) =
       h @ replicate k (GetCall (GetNamespace d) (GetName d))"
  unfolding WaitForDeploymentRollout_def Poll_def
  by (rule WaitFor_trace [OF WaitForDeploymentRollout_condition_snd])

lemma WaitForDaemonSetRollout_trace:
  "\<exists>k \<le> ticks Second deploymentCreateTimeout.
     snd (WaitForDaemonSetRollout daemonSets d h) =
       h @ replicate k (GetCall (GetNamespace d) (GetName d))"
  unfolding WaitForDaemonSetRollout_def Poll_def
  by (rule WaitFor_trace [OF WaitForDaemonSetRollout_condition_snd])

lemma CreateOrUpdateDeployment_present:
  assumes "getResp deployments h (GetNamespace dep) (GetName dep) = Inr observed"
  shows "\<exists>k ns name. k \<le> ticks Second deploymentCreateTimeout
      \<and> snd (CreateOrUpdateDeployment deployments dep h) =
          h @ [GetCall (GetNamespace dep) (GetName dep), UpdateCall (GetNamespace dep) dep]
            @ replicate k (GetCall ns name)"
proof (cases "updateResp deployments (h @ [GetCall (GetNamespace dep) (GetName dep)])
    (GetNamespace dep) dep")
  case (Inl err)
  with assms have "snd (CreateOrUpdateDeployment deployments dep h) =
      h @ [GetCall (GetNamespace dep) (GetName dep), UpdateCall (GetNamespace dep) dep]
        @ replicate 0 (GetCall [] [])"
    by (simp add: CreateOrUpdateDeployment_cases)
  then show ?thesis by (metis le0)
next
  case (Inr d)
  from WaitForDeploymentRollout_trace [of deployments d
      "h @ [GetCall (GetNamespace dep) (GetName dep), UpdateCall (GetNamespace dep) dep]"]
  obtain k where "k \<le> ticks Second deploymentCreateTimeout"
    "snd (WaitForDeploymentRollout deployments d
        (h @ [GetCall (GetNamespace dep) (GetName dep), UpdateCall (GetNamespace dep) dep])) =
     (h @ [GetCall (GetNamespace dep) (GetName dep), UpdateCall (GetNamespace dep) dep])
        @ replicate k (GetCall (GetNamespace d) (GetName d))"
    by blast
  with assms Inr have "k \<le> ticks Second deploymentCreateTimeout
      \<and> snd (CreateOrUpdateDeployment deployments dep h) =
          h @ [GetCall (GetNamespace dep) (GetName dep), UpdateCall (GetNamespace dep) dep]
            @ replicate k (GetCall (GetNamespace d) (GetName d))"
    by (simp add: CreateOrUpdateDeployment_cases)
  then show ?thesis by blast
qed

lemma CreateOrUpdateDaemonSet_present:
  assumes "getResp daemonSets h (GetNamespace ds) (GetName ds) = Inr observed"
  shows "\<exists>k ns name. k \<le> ticks Second deploymentCreateTimeout
      \<and> snd (CreateOrUpdateDaemonSet daemonSets ds h) =
          h @ [GetCall (GetNamespace ds) (GetName ds), UpdateCall (GetNamespace ds) ds]
            @ replicate k (GetCall ns name)"
proof (cases "updateResp daemonSets (h @ [GetCall (GetNamespace ds) (GetName ds)])
    (GetNamespace ds) ds")
  case (Inl err)
  with assms have "snd (CreateOrUpdateDaemonSet daemonSets ds h) =
      h @ [GetCall (GetNamespace ds) (GetName ds), UpdateCall (GetNamespace ds) ds]
        @ replicate 0 (GetCall [] [])"
    by (simp add: CreateOrUpdateDaemonSet_cases)
  then show ?thesis by (metis le0)
next
  case (Inr d)
  from WaitForDaemonSetRollout_trace [of daemonSets d
      "h @ [GetCall (GetNamespace ds) (GetName ds), UpdateCall (GetNamespace ds) ds]"]
  obtain k where "k \<le> ticks Second deploymentCreateTimeout"
    "snd (WaitForDaemonSetRollout daemonSets d
        (h @ [GetCall (GetNamespace ds) (GetName ds), UpdateCall (GetNamespace ds) ds])) =
     (h @ [GetCall (GetNamespace ds) (GetName ds), UpdateCall (GetNamespace ds) ds])
        @ replicate k (GetCall (GetNamespace d) (GetName d))"
    by blast
  with assms Inr have "k \<le> ticks Second deploymentCreateTimeout
      \<and> snd (CreateOrUpdateDaemonSet daemonSets ds h) =
          h @ [GetCall (GetNamespace ds) (GetName ds), UpdateCall (GetNamespace ds) ds]
            @ replicate k (GetCall (GetNamespace d) (GetName d))"
    by (simp add: CreateOrUpdateDaemonSet_cases)
  then show ?thesis by blast
qed

text \<open>
  C1, as the code has it. Reconciling an identity that is present makes one Get, no
  Create and one Update. Only two kinds copy fields of the observed object onto the
  object sent: \<^verbatim>\<open>CreateOrUpdateService\<close> copies the version token, and the cluster IP
  when the desired service is of type ClusterIP, and \<^verbatim>\<open>CreateOrUpdateEndpoints\<close>
  copies the version token. The other kinds send the desired object as it is. For
  deployments and daemon sets the Get and the Update of the unchanged desired object
  are followed by the Gets of the rollout poll, at most 300 of them.
\<close>

theorem present_identity_calls:
  fixes client :: "'a objectMeta_scheme server"
    and cclient :: "'b objectMeta_scheme server"
    and sclient :: "'c service_scheme server"
    and deployments :: "'d deployment_scheme server"
    and daemonSets :: "'e daemonSet_scheme server"
  assumes "getResp client h (GetNamespace obj) (GetName obj) = Inr observed"
    and "getResp cclient hc NamespaceNone (GetName cobj) = Inr cobserved"
    and "getResp sclient hs (GetNamespace svc) (GetName svc) = Inr s"
    and "getResp deployments hw (GetNamespace dep) (GetName dep) = Inr dobserved"
    and "getResp daemonSets he (GetNamespace ds) (GetName ds) = Inr sobserved"
  shows
   "snd (CreateOrUpdateService sclient svc hs) =
      hs @ [GetCall (GetNamespace svc) (GetName svc),
            UpdateCall (GetNamespace svc)
              (if serviceSpec.Type (service.Spec svc) = ServiceTypeClusterIP
               then svc\<lparr>ResourceVersion := ResourceVersion s,
                        service.Spec :=
                          (service.Spec svc)\<lparr>ClusterIP := ClusterIP (service.Spec s)\<rparr>\<rparr>
               else svc\<lparr>ResourceVersion := ResourceVersion s\<rparr>)]
  \<and> snd (CreateOrUpdateEndpoints client obj h) =
      h @ [GetCall (GetNamespace obj) (GetName obj),
           UpdateCall (GetNamespace obj) (obj\<lparr>ResourceVersion := ResourceVersion observed\<rparr>)]
  \<and> snd (CreateOrUpdatePrometheus client obj h) =
      h @ [GetCall (GetNamespace obj) (GetName obj), UpdateCall (GetNamespace obj) obj]
  \<and> snd (CreateOrUpdatePrometheusRule client obj h) =
      h @ [GetCall (GetNamespace obj) (GetName obj), UpdateCall (GetNamespace obj) obj]
  \<and> snd (CreateOrUpdateAlertmanager client obj h) =
      h @ [GetCall (GetNamespace obj) (GetName obj), UpdateCall (GetNamespace obj) obj]
  \<and> snd (CreateOrUpdateSecret client obj h) =
      h @ [GetCall (GetNamespace obj) (GetName obj), UpdateCall (GetNamespace obj) obj]
  \<and> snd (CreateOrUpdateConfigMap client obj h) =
      h @ [GetCall (GetNamespace obj) (GetName obj), UpdateCall (GetNamespace obj) obj]
  \<and> snd (CreateOrUpdateRoleBinding client obj h) =
      h @ [GetCall (GetNamespace obj) (GetName obj), UpdateCall (GetNamespace obj) obj]
  \<and> snd (CreateOrUpdateRole client obj h) =
      h @ [GetCall (GetNamespace obj) (GetName obj), UpdateCall (GetNamespace obj) obj]
  \<and> snd (CreateOrUpdateServiceMonitor client obj h) =
      h @ [GetCall (GetNamespace obj) (GetName obj), UpdateCall (GetNamespace obj) obj]
  \<and> snd (CreateOrUpdateIngress client obj h) =
      h @ [GetCall (GetNamespace obj) (GetName obj), UpdateCall (GetNamespace obj) obj]
  \<and> snd (CreateOrUpdateSecurityContextConstraints cclient cobj hc) =
      hc @ [GetCall NamespaceNone (GetName cobj), UpdateCall NamespaceNone cobj]
  \<and> snd (CreateOrUpdateClusterRole cclient cobj hc) =
      hc @ [GetCall NamespaceNone (GetName cobj), UpdateCall NamespaceNone cobj]
  \<and> snd (CreateOrUpdateClusterRoleBinding cclient cobj hc) =
      hc @ [GetCall NamespaceNone (GetName cobj), UpdateCall NamespaceNone cobj]
  \<and> (\<exists>k ns name. k \<le> ticks Second deploymentCreateTimeout
        \<and> snd (CreateOrUpdateDeployment deployments dep hw) =
            hw @ [GetCall (GetNamespace dep) (GetName dep), UpdateCall (GetNamespace dep) dep]
               @ replicate k (GetCall ns name))
  \<and> (\<exists>k ns name. k \<le> ticks Second deploymentCreateTimeout
        \<and> snd (CreateOrUpdateDaemonSet daemonSets ds he) =
            he @ [GetCall (GetNamespace ds) (GetName ds), UpdateCall (GetNamespace ds) ds]
               @ replicate k (GetCall ns name))"
  using CreateOrUpdateService_present [OF assms(3)]
    CreateOrUpdateEndpoints_present [OF assms(1)]
    CreateOrUpdatePrometheus_present [OF assms(1)]
    CreateOrUpdatePrometheusRule_present [OF assms(1)]
    CreateOrUpdateAlertmanager_present [OF assms(1)]
    CreateOrUpdateSecret_present [OF assms(1)]
    CreateOrUpdateConfigMap_present [OF assms(1)]
    CreateOrUpdateRoleBinding_present [OF assms(1)]
    CreateOrUpdateRole_present [OF assms(1)]
    CreateOrUpdateServiceMonitor_present [OF assms(1)]
    CreateOrUpdateIngress_present [OF assms(1)]
    CreateOrUpdateSecurityContextConstraints_present [OF assms(2)]
    CreateOrUpdateClusterRole_present [OF assms(2)]
    CreateOrUpdateClusterRoleBinding_present [OF assms(2)]
    CreateOrUpdateDeployment_present [OF assms(4)]
    CreateOrUpdateDaemonSet_present [OF assms(5)]
  by (intro conjI)

text \<open>
  A service of type ClusterIP, an object of a namespaced kind, a cluster role, a
  deployment and a daemon set, each present in its store.
\<close>

theorem present_identity_calls_witness:
  "snd (CreateOrUpdateService (holding (exampleService ''ClusterIP'' ''10.0.0.7'' ''42''))
          (exampleService ''ClusterIP'' '''' '''') []) =
     [GetCall ''monitoring'' ''alertmanager-main'',
      UpdateCall ''monitoring'' (exampleService ''ClusterIP'' ''10.0.0.7'' ''42'')]
   \<and> snd (CreateOrUpdateEndpoints (holding (examplePrometheus ''42'')) (examplePrometheus '''') []) =
     [GetCall ''monitoring'' ''k8s'', UpdateCall ''monitoring'' (examplePrometheus ''42'')]
   \<and> snd (CreateOrUpdateSecret (holding (examplePrometheus ''42'')) (examplePrometheus '''') []) =
     [GetCall ''monitoring'' ''k8s'', UpdateCall ''monitoring'' (examplePrometheus '''')]
   \<and> snd (CreateOrUpdateClusterRole (holding (exampleClusterRole ''9'')) (exampleClusterRole '''') []) =
     [GetCall '''' ''prometheus-k8s'', UpdateCall '''' (exampleClusterRole '''')]
   \<and> snd (CreateOrUpdateDeployment rolloutServer (exampleDeployment 0 0 0) []) =
     [GetCall ''monitoring'' ''web'', UpdateCall ''monitoring'' (exampleDeployment 0 0 0),
      GetCall ''monitoring'' ''web'']
   \<and> snd (CreateOrUpdateDaemonSet (holding exampleDaemonSet) exampleDaemonSet []) =
     [GetCall ''monitoring'' ''node-exporter'', UpdateCall ''monitoring'' exampleDaemonSet,
      GetCall ''monitoring'' ''node-exporter'']"
proof -
  let ?p = "examplePrometheus ''''"
  let ?cr = "exampleClusterRole ''''"
  let ?svc = "exampleService ''ClusterIP'' '''' ''''"
  let ?dep = "exampleDeployment 0 0 0"
  have g1: "getResp (holding (examplePrometheus ''42'')) [] (GetNamespace ?p) (GetName ?p) =
      Inr (examplePrometheus ''42'')"
    by (simp add: holding_def scriptServer_def)
  have g2: "getResp (holding (exampleClusterRole ''9'')) [] NamespaceNone (GetName ?cr) =
      Inr (exampleClusterRole ''9'')"
    by (simp add: holding_def scriptServer_def)
  have g3: "getResp (holding (exampleService ''ClusterIP'' ''10.0.0.7'' ''42'')) []
      (GetNamespace ?svc) (GetName ?svc) = Inr (exampleService ''ClusterIP'' ''10.0.0.7'' ''42'')"
    by (simp add: holding_def scriptServer_def)
  have g4: "getResp rolloutServer [] (GetNamespace ?dep) (GetName ?dep) =
      Inr (exampleDeployment 1 2 1)"
    by (simp add: rolloutServer_def scriptServer_def replay_def)
  have g5: "getResp (holding exampleDaemonSet) [] (GetNamespace exampleDaemonSet)
      (GetName exampleDaemonSet) = Inr exampleDaemonSet"
    by (simp add: holding_def scriptServer_def)
  note inst = present_identity_calls [OF g1 g2 g3 g4 g5]
  have names: "GetNamespace ?p = ''monitoring''" "GetName ?p = ''k8s''"
    "GetName ?cr = ''prometheus-k8s''"
    "GetNamespace ?svc = ''monitoring''" "GetName ?svc = ''alertmanager-main''"
    by (simp_all add: GetNamespace_def GetName_def examplePrometheus_def exampleClusterRole_def
          exampleService_def)
  have svc: "snd (CreateOrUpdateService (holding (exampleService ''ClusterIP'' ''10.0.0.7'' ''42''))
      ?svc []) =
     [GetCall ''monitoring'' ''alertmanager-main'',
      UpdateCall ''monitoring'' (exampleService ''ClusterIP'' ''10.0.0.7'' ''42'')]"
    using inst [THEN conjunct1] unfolding names
    by (simp add: exampleService_def ServiceTypeClusterIP_def)
  have ep: "snd (CreateOrUpdateEndpoints (holding (examplePrometheus ''42'')) ?p []) =
     [GetCall ''monitoring'' ''k8s'', UpdateCall ''monitoring'' (examplePrometheus ''42'')]"
    using inst [THEN conjunct2, THEN conjunct1] unfolding names
    by (simp add: examplePrometheus_def)
  have sec: "snd (CreateOrUpdateSecret (holding (examplePrometheus ''42'')) ?p []) =
     [GetCall ''monitoring'' ''k8s'', UpdateCall ''monitoring'' ?p]"
    using inst unfolding names by simp
  have cr: "snd (CreateOrUpdateClusterRole (holding (exampleClusterRole ''9'')) ?cr []) =
     [GetCall '''' ''prometheus-k8s'', UpdateCall '''' ?cr]"
    using inst unfolding names by (simp add: NamespaceNone_def)
  have dep: "snd (CreateOrUpdateDeployment rolloutServer ?dep []) =
     [GetCall ''monitoring'' ''web'', UpdateCall ''monitoring'' ?dep,
      GetCall ''monitoring'' ''web'']"
    by (simp add: CreateOrUpdateDeployment_cases rolloutServer_def scriptServer_def
          replay_def WaitForDeploymentRollout_def Poll_def ticks_rollout WaitFor_pos
          WaitForDeploymentRollout_condition_def clientGet_def exampleDeployment_def
          GetNamespace_def GetName_def)
  have dset: "snd (CreateOrUpdateDaemonSet (holding exampleDaemonSet) exampleDaemonSet []) =
     [GetCall ''monitoring'' ''node-exporter'', UpdateCall ''monitoring'' exampleDaemonSet,
      GetCall ''monitoring'' ''node-exporter'']"
    by (simp add: CreateOrUpdateDaemonSet_cases holding_def scriptServer_def
          WaitForDaemonSetRollout_def Poll_def ticks_rollout WaitFor_pos
          WaitForDaemonSetRollout_condition_def clientGet_def exampleDaemonSet_def
          GetNamespace_def GetName_def)
  from svc ep sec cr dep dset show ?thesis by simp
qed

text \<open>
  The specification as written fails for the kinds that send the desired object as it is, and
  for a service that is not of type ClusterIP. The stored Prometheus object has the
  version token 42 and the desired one has none: the object sent in the Update still
  has none. The stored service of type NodePort has the address 10.0.0.7: the service
  sent carries the version token 42 and no address.
\<close>

theorem version_token_not_carried_counterexample:
  "getResp (holding (examplePrometheus ''42'')) [] ''monitoring'' ''k8s'' =
     Inr (examplePrometheus ''42'')
   \<and> CreateOrUpdatePrometheus (holding (examplePrometheus ''42'')) (examplePrometheus '''') [] =
       (None, [GetCall ''monitoring'' ''k8s'', UpdateCall ''monitoring'' (examplePrometheus '''')])
   \<and> ResourceVersion (examplePrometheus '''') = ''''
   \<and> ResourceVersion (examplePrometheus ''42'') = ''42''
   \<and> CreateOrUpdateService (holding (exampleService ''NodePort'' ''10.0.0.7'' ''42''))
        (exampleService ''NodePort'' '''' '''') [] =
       (None,
        [GetCall ''monitoring'' ''alertmanager-main'',
         UpdateCall ''monitoring'' (exampleService ''NodePort'' '''' ''42'')])"
  by (simp add: CreateOrUpdatePrometheus_def CreateOrUpdateService_def clientGet_def
        clientUpdate_def holding_def scriptServer_def examplePrometheus_def exampleService_def
        GetNamespace_def GetName_def errOf_def ServiceTypeClusterIP_def Let_def)

section \<open>Errors of the remote calls\<close>

text \<open>
  C4. The specification says that every error of a Get, Create, Update or Delete call reaches the
  caller, wrapped. \<^verbatim>\<open>CreateRouteIfNotExists\<close> does not do so: when its Get fails with
  an error that is not not-found, here a refused connection, it makes no further call
  and returns \<^verbatim>\<open>nil\<close>. Its siblings \<^verbatim>\<open>CreateIfNotExistSecret\<close> and
  \<^verbatim>\<open>CreateIfNotExistConfigMap\<close> return that error wrapped.
  \<^verbatim>\<open>DeleteDeployment\<close> returns the error of its Delete without wrapping it, and
  \<^verbatim>\<open>WaitForPrometheusOperatorCRDsReady\<close> returns \<^verbatim>\<open>nil\<close> although the Get of
  the first definition failed.
\<close>

theorem route_get_error_is_swallowed:
  "CreateRouteIfNotExists (unreachable :: route server) (exampleRoute []) [] =
     (None, [GetCall ''monitoring'' ''grafana''])
   \<and> CreateIfNotExistSecret (unreachable :: objectMeta server) (exampleAccount '''') [] =
     (Some (WithMessage (ErrorString ''connection refused'') ''retrieving Secret object failed''),
      [GetCall ''monitoring'' ''prometheus-k8s''])
   \<and> CreateIfNotExistConfigMap (unreachable :: objectMeta server) (exampleAccount '''') [] =
     (Some (WithMessage (ErrorString ''connection refused'') ''retrieving ConfigMap object failed''),
      [GetCall ''monitoring'' ''prometheus-k8s''])
   \<and> DeleteDeployment (unreachable :: objectMeta server) (exampleAccount '''') [] =
     (Some (ErrorString ''connection refused''),
      [DeleteCall ''monitoring'' ''prometheus-k8s''
         (Some \<lparr>PropagationPolicy = Some ''Foreground'', OrphanDependents = None\<rparr>)])
   \<and> WaitForPrometheusOperatorCRDsReady (unreachable :: customResourceDefinition server)
        (unreachable :: objectMeta server) (unreachable :: objectMeta server)
        (unreachable :: objectMeta server) ''monitoring''
        (exampleCRD []) (exampleCRD []) (exampleCRD []) ([], [], [], []) =
     (None, ([GetCall '''' ''prometheuses.monitoring.coreos.com''], [], [], []))"
proof -
  have "WaitForPrometheusOperatorCRDsReady (unreachable :: customResourceDefinition server)
        (unreachable :: objectMeta server) (unreachable :: objectMeta server)
        (unreachable :: objectMeta server) ''monitoring''
        (exampleCRD []) (exampleCRD []) (exampleCRD []) ([], [], [], []) =
     (None, ([GetCall '''' ''prometheuses.monitoring.coreos.com''], [], [], []))"
    by (simp add: WaitForPrometheusOperatorCRDsReady_def Poll_def ticks_def Second_def
          Minute_def WaitFor_pos WaitForPrometheusOperatorCRDsReady_condition_def
          WaitForCRDReady_def CRDReady_def clientGet_def unreachable_def exampleCRD_def
          NamespaceNone_def)
  then show ?thesis
    by (simp add: CreateRouteIfNotExists_def CreateIfNotExistSecret_def
          CreateIfNotExistConfigMap_def DeleteDeployment_def clientGet_def clientDelete_def
          unreachable_def exampleRoute_def exampleAccount_def GetNamespace_def GetName_def
          errOf_def IsNotFound_def StatusReasonNotFound_def StatusReasonUnknown_def
          DeletePropagationForeground_def)
qed

end
